theory Spec2Isabelle
  imports Complex_Main
begin

section \<open>Encoder and decoder networks of \<^verbatim>\<open>nksr/nn/encdec.py\<close>\<close>

text \<open>
  A shallow embedding of \<^verbatim>\<open>ResnetBlockFC\<close>, \<^verbatim>\<open>PointEncoder\<close> and
  \<^verbatim>\<open>MultiscalePointDecoder\<close>. Tensor entries are real numbers: the arithmetic of the
  source is read as exact arithmetic, so rounding, infinities and NaN of the floating-point
  types are outside this development. Every Python exception is a value of \<open>py_error\<close>.
\<close>

subsection \<open>Errors\<close>

text \<open>
  The exceptions the source can raise, and \<open>UndefinedValue\<close>, which is no exception: it marks
  a quotient by zero, which the source computes as NaN or an infinity and goes on with, and
  for which the reals have no value.
\<close>

datatype py_error =
  NotImplementedError | AssertionError | AttributeError | IndexError | KeyError
  | TypeError | RuntimeError | UndefinedValue

definition bind_err :: "py_error + 'a \<Rightarrow> ('a \<Rightarrow> py_error + 'b) \<Rightarrow> py_error + 'b" where
  "bind_err m f = (case m of Inl e \<Rightarrow> Inl e | Inr v \<Rightarrow> f v)"

text \<open>Python list indexing \<^verbatim>\<open>xs[i]\<close>: a negative index counts from the end.\<close>

definition py_resolve :: "nat \<Rightarrow> int \<Rightarrow> nat option" where
  "py_resolve n i =
     (let j = (if i < 0 then int n + i else i)
      in if 0 \<le> j \<and> j < int n then Some (nat j) else None)"

definition py_index :: "'a list \<Rightarrow> int \<Rightarrow> py_error + 'a" where
  "py_index xs i = (case py_resolve (length xs) i of None \<Rightarrow> Inl IndexError | Some j \<Rightarrow> Inr (xs ! j))"

text \<open>A list of results is a result when each of them is; the first failure wins.\<close>

fun sequence_err :: "(py_error + 'a) list \<Rightarrow> py_error + 'a list" where
  "sequence_err [] = Inr []"
| "sequence_err (m # ms) =
     bind_err m (\<lambda>x. bind_err (sequence_err ms) (\<lambda>xs. Inr (x # xs)))"

subsection \<open>Two-dimensional tensors\<close>

text \<open>
  A tensor of shape \<open>(N, ncols)\<close> is the list of its \<open>N\<close> rows together with its width,
  which a tensor with no rows still has. Sizes and dimension arguments are natural numbers.
\<close>

record tensor =
  ncols :: nat
  rows :: "real list list"

definition nrows :: "tensor \<Rightarrow> nat" where
  "nrows t = length (rows t)"

definition zeros :: "nat \<Rightarrow> nat \<Rightarrow> tensor" where
  "zeros n c = \<lparr>ncols = c, rows = replicate n (replicate c 0)\<rparr>"

definition relu :: "tensor \<Rightarrow> tensor" where
  "relu t = t\<lparr>rows := map (map (max 0)) (rows t)\<rparr>"

text \<open>Broadcasting of one dimension: equal sizes, or one of them is 1.\<close>

definition bcast_dim :: "nat \<Rightarrow> nat \<Rightarrow> nat option" where
  "bcast_dim a b = (if a = b then Some a else if a = 1 then Some b else if b = 1 then Some a else None)"

definition expand :: "nat \<Rightarrow> nat \<Rightarrow> 'a list \<Rightarrow> 'a list" where
  "expand n m xs = (if n = m then xs else replicate m (hd xs))"

text \<open>\<^verbatim>\<open>a + b\<close> on tensors, with broadcasting; incompatible shapes raise.\<close>

definition tadd :: "tensor \<Rightarrow> tensor \<Rightarrow> py_error + tensor" where
  "tadd a b =
     (case (bcast_dim (nrows a) (nrows b), bcast_dim (ncols a) (ncols b)) of
        (Some n, Some c) \<Rightarrow>
          Inr \<lparr>ncols = c,
               rows = map2 (\<lambda>r s. map2 (+) (expand (ncols a) c r) (expand (ncols b) c s))
                        (expand (nrows a) n (rows a)) (expand (nrows b) n (rows b))\<rparr>
      | _ \<Rightarrow> Inl RuntimeError)"

text \<open>\<^verbatim>\<open>torch.cat(ts, dim=1)\<close>: an empty list and differing row counts raise.\<close>

definition cat1 :: "tensor list \<Rightarrow> py_error + tensor" where
  "cat1 ts =
     (case ts of
        [] \<Rightarrow> Inl RuntimeError
      | t # _ \<Rightarrow>
          if list_all (\<lambda>u. nrows u = nrows t) ts
          then Inr \<lparr>ncols = sum_list (map ncols ts),
                    rows = foldr (\<lambda>u acc. map2 (@) (rows u) acc) ts (replicate (nrows t) [])\<rparr>
          else Inl RuntimeError)"

text \<open>Boolean-mask indexing \<^verbatim>\<open>xs[mask]\<close> along dimension 0.\<close>

definition mask_select :: "'a list \<Rightarrow> bool list \<Rightarrow> 'a list" where
  "mask_select xs msk = map fst (filter snd (zip xs msk))"

definition tensor_mask :: "tensor \<Rightarrow> bool list \<Rightarrow> py_error + tensor" where
  "tensor_mask t msk =
     (if nrows t = length msk then Inr (t\<lparr>rows := mask_select (rows t) msk\<rparr>)
      else Inl IndexError)"

subsection \<open>Linear layers\<close>

record Linear =
  in_features :: nat
  out_features :: nat
  weight :: "real list list"
  bias :: "real list option"

text \<open>
  The values \<^verbatim>\<open>nn.Linear\<close> draws at construction come from the random generator; a
  \<open>lin_seed\<close> stands for one such draw, entry by entry.
\<close>

record lin_seed =
  w_seed :: "nat \<Rightarrow> nat \<Rightarrow> real"
  b_seed :: "nat \<Rightarrow> real"

definition Linear_init :: "nat \<Rightarrow> nat \<Rightarrow> bool \<Rightarrow> lin_seed \<Rightarrow> Linear" where
  "Linear_init n_in n_out has_bias sd =
     \<lparr>in_features = n_in, out_features = n_out,
      weight = map (\<lambda>i. map (w_seed sd i) [0..<n_in]) [0..<n_out],
      bias = (if has_bias then Some (map (b_seed sd) [0..<n_out]) else None)\<rparr>"

definition dot :: "real list \<Rightarrow> real list \<Rightarrow> real" where
  "dot w x = sum_list (map2 (*) w x)"

definition affine :: "Linear \<Rightarrow> real list \<Rightarrow> real list" where
  "affine l x =
     (let y = map (\<lambda>w. dot w x) (weight l)
      in case bias l of None \<Rightarrow> y | Some b \<Rightarrow> map2 (+) y b)"

definition Linear_forward :: "Linear \<Rightarrow> tensor \<Rightarrow> py_error + tensor" where
  "Linear_forward l x =
     (if ncols x \<noteq> in_features l then Inl RuntimeError
      else Inr \<lparr>ncols = out_features l, rows = map (affine l) (rows x)\<rparr>)"

text \<open>\<^verbatim>\<open>nn.init.zeros_\<close> and \<^verbatim>\<open>nn.init.constant_\<close> keep the shape of what they fill.\<close>

definition zeros_weight :: "Linear \<Rightarrow> Linear" where
  "zeros_weight l = l\<lparr>weight := replicate (out_features l) (replicate (in_features l) 0)\<rparr>"

definition constant_bias :: "Linear \<Rightarrow> real \<Rightarrow> Linear" where
  "constant_bias l v = l\<lparr>bias := map_option (map (\<lambda>_. v)) (bias l)\<rparr>"

subsection \<open>ResnetBlockFC\<close>

record ResnetBlockFC =
  size_in :: nat
  size_h :: nat
  size_out :: nat
  fc_0 :: Linear
  fc_1 :: Linear
  shortcut :: "Linear option"

record resnet_seed =
  fc_0_seed :: lin_seed
  fc_1_seed :: lin_seed
  shortcut_seed :: lin_seed

definition ResnetBlockFC_init ::
  "nat \<Rightarrow> nat option \<Rightarrow> nat option \<Rightarrow> resnet_seed \<Rightarrow> ResnetBlockFC" where
  "ResnetBlockFC_init s_in s_out_opt s_h_opt sd =
     (let s_out = (case s_out_opt of None \<Rightarrow> s_in | Some s \<Rightarrow> s);
          s_h = (case s_h_opt of None \<Rightarrow> min s_in s_out | Some h \<Rightarrow> h)
      in \<lparr>size_in = s_in, size_h = s_h, size_out = s_out,
          fc_0 = Linear_init s_in s_h True (fc_0_seed sd),
          fc_1 = zeros_weight (Linear_init s_h s_out True (fc_1_seed sd)),
          shortcut = (if s_in = s_out then None
                      else Some (Linear_init s_in s_out False (shortcut_seed sd)))\<rparr>)"

text \<open>The value \<^verbatim>\<open>x_s\<close> of the shortcut branch.\<close>

definition shortcut_value :: "ResnetBlockFC \<Rightarrow> tensor \<Rightarrow> py_error + tensor" where
  "shortcut_value blk x = (case shortcut blk of Some s \<Rightarrow> Linear_forward s x | None \<Rightarrow> Inr x)"

definition ResnetBlockFC_forward :: "ResnetBlockFC \<Rightarrow> tensor \<Rightarrow> py_error + tensor" where
  "ResnetBlockFC_forward blk x =
     bind_err (Linear_forward (fc_0 blk) (relu x)) (\<lambda>net.
     bind_err (Linear_forward (fc_1 blk) (relu net)) (\<lambda>dx.
     bind_err (shortcut_value blk x) (\<lambda>x_s.
     tadd x_s dx)))"

subsection \<open>The sparse voxel hierarchy and the scatter primitives\<close>

text \<open>
  Modelled from the spec: the grid objects of \<^verbatim>\<open>nksr.svh.SparseFeatureHierarchy\<close> are not
  in this file. A grid is the record of what the spec says the networks consume from it:
  \<^verbatim>\<open>world_to_grid\<close> and \<^verbatim>\<open>ijk_to_index\<close> (the sentinel \<open>-1\<close> for no active voxel), both
  acting on each point by itself, \<^verbatim>\<open>num_voxels\<close>, \<^verbatim>\<open>voxel_size\<close> and \<^verbatim>\<open>sample_trilinear\<close>.
  The functions are arbitrary; \<^verbatim>\<open>svh.grids\<close> is a Python list with \<^verbatim>\<open>None\<close> for a depth
  that has no grid.
\<close>

record grid =
  world_to_grid :: "real list \<Rightarrow> real list"
  ijk_to_index :: "int list \<Rightarrow> int"
  num_voxels :: nat
  voxel_size :: real
  sample_trilinear :: "tensor \<Rightarrow> tensor \<Rightarrow> tensor"

record SparseFeatureHierarchy =
  grids :: "grid option list"

definition group_rows :: "real list list \<Rightarrow> int list \<Rightarrow> int \<Rightarrow> real list list" where
  "group_rows rs index j = map fst (filter (\<lambda>(r, i). i = j) (zip rs index))"

definition index_ok :: "tensor \<Rightarrow> int list \<Rightarrow> nat \<Rightarrow> bool" where
  "index_ok src index dim_size \<longleftrightarrow>
     length index = nrows src \<and> list_all (\<lambda>i. 0 \<le> i \<and> i < int dim_size) index"

text \<open>
  Modelled from the spec: \<^verbatim>\<open>torch_scatter.scatter_max(src, index, dim=0, dim_size=n)[0]\<close>
  and \<^verbatim>\<open>scatter_mean\<close> are library functions. Row \<open>j\<close> of the result reduces the rows of
  \<open>src\<close> whose index is \<open>j\<close>; the spec expects a defined zero row for a group with no rows,
  which is what the library gives: the maximum of an empty group is filled with 0, and the
  mean divides the sum of the group by its count clamped to at least 1. The division is
  \<open>mean_entry\<close>, undefined for a count of zero. An index outside \<open>[0, n)\<close> is outside the
  contract of the library and is an error here.
\<close>

definition scatter_max :: "tensor \<Rightarrow> int list \<Rightarrow> nat \<Rightarrow> py_error + tensor" where
  "scatter_max src index dim_size =
     (if index_ok src index dim_size
      then Inr \<lparr>ncols = ncols src,
                rows = map (\<lambda>j. case group_rows (rows src) index (int j) of
                                   [] \<Rightarrow> replicate (ncols src) 0
                                 | r # rs \<Rightarrow> foldl (map2 max) r rs) [0..<dim_size]\<rparr>
      else Inl RuntimeError)"

definition mean_entry :: "real \<Rightarrow> nat \<Rightarrow> py_error + real" where
  "mean_entry s count = (if count = 0 then Inl UndefinedValue else Inr (s / real count))"

definition scatter_mean :: "tensor \<Rightarrow> int list \<Rightarrow> nat \<Rightarrow> py_error + tensor" where
  "scatter_mean src index dim_size =
     (if index_ok src index dim_size
      then bind_err
             (sequence_err
                (map (\<lambda>j. let g = group_rows (rows src) index (int j);
                              count = max 1 (length g)
                          in sequence_err
                               (map (\<lambda>s. mean_entry s count)
                                  (foldl (map2 (+)) (replicate (ncols src) 0) g)))
                   [0..<dim_size]))
             (\<lambda>rs. Inr \<lparr>ncols = ncols src, rows = rs\<rparr>)
      else Inl RuntimeError)"

text \<open>Integer-list indexing \<^verbatim>\<open>t[idx]\<close> along dimension 0.\<close>

definition index_rows :: "tensor \<Rightarrow> int list \<Rightarrow> py_error + tensor" where
  "index_rows t idx =
     (if list_all (\<lambda>i. py_resolve (nrows t) i \<noteq> None) idx
      then Inr (t\<lparr>rows := map (\<lambda>i. rows t ! the (py_resolve (nrows t) i)) idx\<rparr>)
      else Inl IndexError)"

subsection \<open>PointEncoder\<close>

text \<open>The fields of the two networks carry a prefix, since both have \<^verbatim>\<open>c_dim\<close>,
  \<^verbatim>\<open>fc_c\<close> and \<^verbatim>\<open>blocks\<close>.\<close>

record PointEncoder =
  pe_c_dim :: nat
  pe_fc_pos :: Linear
  pe_blocks :: "ResnetBlockFC list"
  pe_fc_c :: Linear
  pe_hidden_dim :: nat

record encoder_seed =
  pe_fc_pos_seed :: lin_seed
  pe_blocks_seed :: "nat \<Rightarrow> resnet_seed"
  pe_fc_c_seed :: lin_seed

definition PointEncoder_init :: "nat \<Rightarrow> nat \<Rightarrow> nat \<Rightarrow> nat \<Rightarrow> encoder_seed \<Rightarrow> PointEncoder" where
  "PointEncoder_init dim_in c_dim hidden_dim n_blocks sd =
     \<lparr>pe_c_dim = c_dim,
      pe_fc_pos = Linear_init dim_in (2 * hidden_dim) True (pe_fc_pos_seed sd),
      pe_blocks = map (\<lambda>i. ResnetBlockFC_init (2 * hidden_dim) (Some hidden_dim) None
                             (pe_blocks_seed sd i)) [0..<n_blocks],
      pe_fc_c = Linear_init hidden_dim c_dim True (pe_fc_c_seed sd),
      pe_hidden_dim = hidden_dim\<rparr>"

text \<open>\<^verbatim>\<open>torch.round\<close> rounds a half to the even neighbour.\<close>

definition round_half_even :: "real \<Rightarrow> int" where
  "round_half_even x =
     (let f = \<lfloor>x\<rfloor>; d = x - of_int f
      in if d < 1/2 then f else if 1/2 < d then f + 1 else if even f then f else f + 1)"

text \<open>\<^verbatim>\<open>a % b\<close> on tensors takes the sign of the divisor.\<close>

definition py_mod :: "real \<Rightarrow> real \<Rightarrow> real" where
  "py_mod a b = a - b * of_int \<lfloor>a / b\<rfloor>"

text \<open>The loop over \<^verbatim>\<open>self.blocks[1:]\<close>.\<close>

fun pool_blocks :: "ResnetBlockFC list \<Rightarrow> int list \<Rightarrow> nat \<Rightarrow> tensor \<Rightarrow> py_error + tensor" where
  "pool_blocks [] vid nv pts_feature = Inr pts_feature"
| "pool_blocks (block # bs) vid nv pts_feature =
     bind_err (scatter_max pts_feature vid nv) (\<lambda>pooled.
     bind_err (index_rows pooled vid) (\<lambda>pooled.
     bind_err (cat1 [pts_feature, pooled]) (\<lambda>pts_feature.
     bind_err (ResnetBlockFC_forward block pts_feature) (\<lambda>pts_feature.
     pool_blocks bs vid nv pts_feature))))"

definition PointEncoder_forward ::
  "PointEncoder \<Rightarrow> tensor \<Rightarrow> tensor option \<Rightarrow> SparseFeatureHierarchy \<Rightarrow> int \<Rightarrow> py_error + tensor" where
  "PointEncoder_forward enc pts_xyz pts_feature svh depth =
     bind_err (py_index (grids svh) depth) (\<lambda>grid_opt.
     case grid_opt of
       None \<Rightarrow> Inl AssertionError
     | Some grid \<Rightarrow>
         (let pts_g = pts_xyz\<lparr>rows := map (world_to_grid grid) (rows pts_xyz)\<rparr>;
              vid_all = map (\<lambda>r. ijk_to_index grid (map round_half_even r)) (rows pts_g);
              pts_l = pts_g\<lparr>rows := map (map (\<lambda>c. py_mod (c + 1/2) 1)) (rows pts_g)\<rparr>;
              pts_mask = map (\<lambda>v. v \<noteq> - 1) vid_all;
              vid = mask_select vid_all pts_mask
          in bind_err (tensor_mask pts_l pts_mask) (\<lambda>pts_m.
             bind_err (case pts_feature of
                         None \<Rightarrow> Linear_forward (pe_fc_pos enc) pts_m
                       | Some pf \<Rightarrow>
                           bind_err (tensor_mask pf pts_mask) (\<lambda>pf_m.
                           bind_err (cat1 [pts_m, pf_m]) (Linear_forward (pe_fc_pos enc)))) (\<lambda>f0.
             bind_err (py_index (pe_blocks enc) 0) (\<lambda>block0.
             bind_err (ResnetBlockFC_forward block0 f0) (\<lambda>f1.
             bind_err (pool_blocks (drop 1 (pe_blocks enc)) vid (num_voxels grid) f1) (\<lambda>f2.
             bind_err (Linear_forward (pe_fc_c enc) f2) (\<lambda>c.
             scatter_mean c vid (num_voxels grid)))))))))"

text \<open>The voxel index the forward pass gives a point: \<open>-1\<close> when its rounded grid
  coordinate is no active voxel.\<close>

definition point_voxel :: "grid \<Rightarrow> real list \<Rightarrow> int" where
  "point_voxel g p = ijk_to_index g (map round_half_even (world_to_grid g p))"

subsection \<open>MultiscalePointDecoder\<close>

record MultiscalePointDecoder =
  mpd_c_dim :: nat
  mpd_c_each_dim :: nat
  mpd_n_blocks :: nat
  mpd_multiscale_depths :: nat
  mpd_aggregation :: string
  mpd_coords_depths :: "int list"
  mpd_fc_c :: "Linear list"
  mpd_fc_p :: Linear
  mpd_blocks :: "ResnetBlockFC list"
  mpd_fc_out :: Linear
  mpd_out_dim :: nat

record decoder_seed =
  mpd_fc_c_seed :: "nat \<Rightarrow> lin_seed"
  mpd_fc_p_seed :: lin_seed
  mpd_blocks_seed :: "nat \<Rightarrow> resnet_seed"
  mpd_fc_out_seed :: lin_seed

definition MultiscalePointDecoder_init ::
  "nat \<Rightarrow> nat \<Rightarrow> nat \<Rightarrow> nat \<Rightarrow> nat \<Rightarrow> nat \<Rightarrow> string \<Rightarrow> real option \<Rightarrow> int list option
     \<Rightarrow> decoder_seed \<Rightarrow> py_error + MultiscalePointDecoder" where
  "MultiscalePointDecoder_init c_each_dim multiscale_depths p_dim out_dim hidden_size n_blocks
       aggregation out_init coords_depths sd =
     bind_err (if aggregation = ''cat'' then Inr (c_each_dim * multiscale_depths)
               else if aggregation = ''sum'' then Inr c_each_dim
               else Inl NotImplementedError) (\<lambda>c_dim.
     let cds = sort (case coords_depths of
                       None \<Rightarrow> map int [0..<multiscale_depths]
                     | Some ds \<Rightarrow> ds);
         fc_out = Linear_init hidden_size out_dim True (mpd_fc_out_seed sd)
     in Inr \<lparr>mpd_c_dim = c_dim,
             mpd_c_each_dim = c_each_dim,
             mpd_n_blocks = n_blocks,
             mpd_multiscale_depths = multiscale_depths,
             mpd_aggregation = aggregation,
             mpd_coords_depths = cds,
             mpd_fc_c = map (\<lambda>i. Linear_init c_dim hidden_size True (mpd_fc_c_seed sd i))
                          [0..<n_blocks],
             mpd_fc_p = Linear_init (p_dim * length cds) hidden_size True (mpd_fc_p_seed sd),
             mpd_blocks = map (\<lambda>i. ResnetBlockFC_init hidden_size None None
                                      (mpd_blocks_seed sd i)) [0..<n_blocks],
             mpd_fc_out = (case out_init of
                             None \<Rightarrow> fc_out
                           | Some v \<Rightarrow> constant_bias (zeros_weight fc_out) v),
             mpd_out_dim = out_dim\<rparr>)"

text \<open>The local coordinate \<^verbatim>\<open>(xyz % vs) / vs - 0.5\<close> of one entry, in exact arithmetic.
  The source computes it in float32, where the remainder of an \<open>x\<close> just below a multiple
  of \<open>vs\<close> rounds up to \<open>vs\<close> and the coordinate is \<open>0.5\<close>, and where \<open>x\<close> and \<open>x + vs\<close>
  give different values; for a voxel size of zero it computes NaN. No theorem below
  states a property of the value of the local coordinate, and the concrete evaluations use
  dyadic inputs and parameters, on which float32 and exact arithmetic agree.\<close>

definition local_coord :: "real \<Rightarrow> real \<Rightarrow> real" where
  "local_coord vs x = py_mod x vs / vs - 1/2"

text \<open>The loop over \<^verbatim>\<open>self.coords_depths\<close>; reading \<^verbatim>\<open>voxel_size\<close> of \<^verbatim>\<open>None\<close> raises.\<close>

fun pos_feats :: "int list \<Rightarrow> grid option list \<Rightarrow> tensor \<Rightarrow> py_error + tensor list" where
  "pos_feats [] gs xyz = Inr []"
| "pos_feats (did # ds) gs xyz =
     bind_err (py_index gs did) (\<lambda>g_opt.
     case g_opt of
       None \<Rightarrow> Inl AttributeError
     | Some g \<Rightarrow>
         (let vs = voxel_size g;
              p = xyz\<lparr>rows := map (map (local_coord vs)) (rows xyz)\<rparr>
          in bind_err (pos_feats ds gs xyz) (\<lambda>ps. Inr (p # ps))))"

text \<open>The loop over \<^verbatim>\<open>range(self.multiscale_depths)\<close>; \<^verbatim>\<open>multiscale_feat\<close> is a dict.\<close>

fun sample_feats ::
  "nat list \<Rightarrow> nat \<Rightarrow> grid option list \<Rightarrow> (nat \<rightharpoonup> tensor) \<Rightarrow> tensor \<Rightarrow> py_error + tensor list" where
  "sample_feats [] c_each gs multiscale_feat xyz = Inr []"
| "sample_feats (did # ds) c_each gs multiscale_feat xyz =
     bind_err (py_index gs (int did)) (\<lambda>g_opt.
     bind_err (case g_opt of
                 None \<Rightarrow> Inr (zeros (nrows xyz) c_each)
               | Some g \<Rightarrow>
                   (case multiscale_feat did of
                      None \<Rightarrow> Inl KeyError
                    | Some f \<Rightarrow> Inr (sample_trilinear g xyz f))) (\<lambda>c.
     bind_err (sample_feats ds c_each gs multiscale_feat xyz) (\<lambda>cs. Inr (c # cs))))"

text \<open>Python's \<^verbatim>\<open>sum(c_feats)\<close> starts from the integer 0 and adds from the left.\<close>

datatype py_value = PyInt int | PyTensor tensor

definition py_add :: "py_value \<Rightarrow> tensor \<Rightarrow> py_error + py_value" where
  "py_add acc t =
     (case acc of
        PyInt k \<Rightarrow> Inr (PyTensor (t\<lparr>rows := map (map (\<lambda>v. of_int k + v)) (rows t)\<rparr>))
      | PyTensor a \<Rightarrow> bind_err (tadd a t) (\<lambda>s. Inr (PyTensor s)))"

fun py_sum_from :: "py_value \<Rightarrow> tensor list \<Rightarrow> py_error + py_value" where
  "py_sum_from acc [] = Inr acc"
| "py_sum_from acc (t # ts) = bind_err (py_add acc t) (\<lambda>a. py_sum_from a ts)"

definition py_sum :: "tensor list \<Rightarrow> py_error + py_value" where
  "py_sum ts = py_sum_from (PyInt 0) ts"

definition aggregate :: "string \<Rightarrow> tensor list \<Rightarrow> py_error + py_value" where
  "aggregate aggregation c_feats =
     (if aggregation = ''cat'' then bind_err (cat1 c_feats) (\<lambda>c. Inr (PyTensor c))
      else py_sum c_feats)"

text \<open>A layer applied to something that is not a tensor raises.\<close>

definition Linear_call :: "Linear \<Rightarrow> py_value \<Rightarrow> py_error + tensor" where
  "Linear_call l c = (case c of PyInt _ \<Rightarrow> Inl TypeError | PyTensor t \<Rightarrow> Linear_forward l t)"

text \<open>The loop over \<^verbatim>\<open>range(self.n_blocks)\<close>.\<close>

fun fuse :: "nat list \<Rightarrow> MultiscalePointDecoder \<Rightarrow> py_value \<Rightarrow> tensor \<Rightarrow> py_error + tensor" where
  "fuse [] dec c net = Inr net"
| "fuse (i # is) dec c net =
     bind_err (py_index (mpd_fc_c dec) (int i)) (\<lambda>l.
     bind_err (Linear_call l c) (\<lambda>h.
     bind_err (tadd net h) (\<lambda>net1.
     bind_err (py_index (mpd_blocks dec) (int i)) (\<lambda>block.
     bind_err (ResnetBlockFC_forward block net1) (\<lambda>net2.
     fuse is dec c net2)))))"

definition MultiscalePointDecoder_forward ::
  "MultiscalePointDecoder \<Rightarrow> tensor \<Rightarrow> SparseFeatureHierarchy \<Rightarrow> (nat \<rightharpoonup> tensor)
     \<Rightarrow> py_error + tensor" where
  "MultiscalePointDecoder_forward dec xyz svh multiscale_feat =
     bind_err (pos_feats (mpd_coords_depths dec) (grids svh) xyz) (\<lambda>p_feats.
     bind_err (cat1 p_feats) (\<lambda>p.
     bind_err (sample_feats [0..<mpd_multiscale_depths dec] (mpd_c_each_dim dec) (grids svh)
                 multiscale_feat xyz) (\<lambda>c_feats.
     bind_err (aggregate (mpd_aggregation dec) c_feats) (\<lambda>c.
     bind_err (Linear_forward (mpd_fc_p dec) p) (\<lambda>net.
     bind_err (fuse [0..<mpd_n_blocks dec] dec c net) (\<lambda>net'.
     Linear_forward (mpd_fc_out dec) (relu net')))))))"

subsection \<open>Parameters of the declared shapes\<close>

text \<open>
  Construction fixes the shapes of the parameters and training changes their values only.
  These predicates say that a layer, a block and an encoder have parameters of the shapes
  the constructors give them, whatever the values are.
\<close>

definition Linear_shaped :: "Linear \<Rightarrow> nat \<Rightarrow> nat \<Rightarrow> bool" where
  "Linear_shaped l n_in n_out \<longleftrightarrow>
     in_features l = n_in \<and> out_features l = n_out \<and> length (weight l) = n_out
     \<and> list_all (\<lambda>w. length w = n_in) (weight l)
     \<and> (case bias l of None \<Rightarrow> True | Some b \<Rightarrow> length b = n_out)"

definition ResnetBlockFC_shaped :: "ResnetBlockFC \<Rightarrow> nat \<Rightarrow> nat \<Rightarrow> bool" where
  "ResnetBlockFC_shaped blk s_in s_out \<longleftrightarrow>
     size_in blk = s_in \<and> size_out blk = s_out
     \<and> Linear_shaped (fc_0 blk) s_in (size_h blk)
     \<and> Linear_shaped (fc_1 blk) (size_h blk) s_out
     \<and> (case shortcut blk of None \<Rightarrow> s_in = s_out | Some s \<Rightarrow> Linear_shaped s s_in s_out)"

definition PointEncoder_shaped :: "PointEncoder \<Rightarrow> nat \<Rightarrow> bool" where
  "PointEncoder_shaped enc dim_in \<longleftrightarrow>
     Linear_shaped (pe_fc_pos enc) dim_in (2 * pe_hidden_dim enc)
     \<and> pe_blocks enc \<noteq> []
     \<and> list_all (\<lambda>b. ResnetBlockFC_shaped b (2 * pe_hidden_dim enc) (pe_hidden_dim enc))
          (pe_blocks enc)
     \<and> Linear_shaped (pe_fc_c enc) (pe_hidden_dim enc) (pe_c_dim enc)"

subsection \<open>Concrete inputs\<close>

text \<open>
  One draw of the initial parameters: every weight and every bias is \<open>1/4\<close>, a value
  inside the interval \<^verbatim>\<open>nn.Linear\<close> draws from for a layer with fewer than 16 inputs,
  as every layer constructed below is.
\<close>

definition quarter_seed :: lin_seed where
  "quarter_seed = \<lparr>w_seed = (\<lambda>i j. 1/4), b_seed = (\<lambda>i. 1/4)\<rparr>"

definition quarter_resnet_seed :: resnet_seed where
  "quarter_resnet_seed =
     \<lparr>fc_0_seed = quarter_seed, fc_1_seed = quarter_seed, shortcut_seed = quarter_seed\<rparr>"

definition origin1 :: tensor where
  "origin1 = \<lparr>ncols = 1, rows = [[0]]\<rparr>"

definition origin2 :: tensor where
  "origin2 = \<lparr>ncols = 2, rows = [[0, 0]]\<rparr>"

definition quarter_decoder_seed :: decoder_seed where
  "quarter_decoder_seed =
     \<lparr>mpd_fc_c_seed = (\<lambda>i. quarter_seed), mpd_fc_p_seed = quarter_seed,
      mpd_blocks_seed = (\<lambda>i. quarter_resnet_seed), mpd_fc_out_seed = quarter_seed\<rparr>"

definition quarter_encoder_seed :: encoder_seed where
  "quarter_encoder_seed =
     \<lparr>pe_fc_pos_seed = quarter_seed, pe_blocks_seed = (\<lambda>i. quarter_resnet_seed),
      pe_fc_c_seed = quarter_seed\<rparr>"

definition no_grid_svh :: SparseFeatureHierarchy where
  "no_grid_svh = \<lparr>grids = [None]\<rparr>"

text \<open>A grid with the single active voxel \<open>(0, 0, 0)\<close> and voxel size 1, whose sampler
  returns zero features.\<close>

definition unit_grid :: grid where
  "unit_grid =
     \<lparr>world_to_grid = (\<lambda>p. p),
      ijk_to_index = (\<lambda>ijk. if ijk = [0, 0, 0] then 0 else - 1),
      num_voxels = 1,
      voxel_size = 1,
      sample_trilinear = (\<lambda>xyz f. zeros (nrows xyz) (ncols f))\<rparr>"

definition query1 :: tensor where
  "query1 = \<lparr>ncols = 3, rows = [[1/4, 5/4, - 1/4]]\<rparr>"

definition query2 :: tensor where
  "query2 = \<lparr>ncols = 3, rows = [[1/4, 5/4, - 1/4], [0, 0, 0]]\<rparr>"

text \<open>A decoder with two depths of one channel each, one block and scalar output, and two
  hierarchies for it: one whose finest grid is absent, one with both grids.\<close>

definition small_decoder ::
  "string \<Rightarrow> real option \<Rightarrow> int list option \<Rightarrow> MultiscalePointDecoder" where
  "small_decoder aggregation out_init coords =
     projr (MultiscalePointDecoder_init 1 2 3 1 1 1 aggregation out_init coords
              quarter_decoder_seed)"

definition coarse_only_svh :: SparseFeatureHierarchy where
  "coarse_only_svh = \<lparr>grids = [None, Some unit_grid]\<rparr>"

definition full_svh :: SparseFeatureHierarchy where
  "full_svh = \<lparr>grids = [Some unit_grid, Some unit_grid]\<rparr>"

definition small_feat :: "nat \<rightharpoonup> tensor" where
  "small_feat = [0 \<mapsto> \<lparr>ncols = 1, rows = [[7]]\<rparr>, 1 \<mapsto> \<lparr>ncols = 1, rows = [[7]]\<rparr>]"

text \<open>A grid with two active voxels and a cloud of three points, with one feature each,
  whose second point lies in no active voxel; the other two lie in voxel 0, so that voxel 1
  receives no point. The clouds without the second point follow.\<close>

definition two_voxel_grid :: grid where
  "two_voxel_grid =
     \<lparr>world_to_grid = map (\<lambda>c. 2 * c),
      ijk_to_index = (\<lambda>ijk. if ijk = [0, 0, 0] then 0 else if ijk = [1, 0, 0] then 1 else - 1),
      num_voxels = 2,
      voxel_size = 1/2,
      sample_trilinear = (\<lambda>xyz f. zeros (nrows xyz) (ncols f))\<rparr>"

definition one_grid_svh :: SparseFeatureHierarchy where
  "one_grid_svh = \<lparr>grids = [Some two_voxel_grid]\<rparr>"

definition cloud3 :: tensor where
  "cloud3 = \<lparr>ncols = 3, rows = [[1/8, 0, 0], [5, 5, 5], [0, 1/8, - 1/8]]\<rparr>"

definition cloud2 :: tensor where
  "cloud2 = \<lparr>ncols = 3, rows = [[1/8, 0, 0], [0, 1/8, - 1/8]]\<rparr>"

definition cloud3_feat :: tensor where
  "cloud3_feat = \<lparr>ncols = 1, rows = [[1], [100], [2]]\<rparr>"

definition cloud2_feat :: tensor where
  "cloud2_feat = \<lparr>ncols = 1, rows = [[1], [2]]\<rparr>"

text \<open>An encoder after training: the shapes of the constructed one, and blocks whose
  \<^verbatim>\<open>fc_1\<close> weights are no longer zero.\<close>

definition trained_block :: ResnetBlockFC where
  "trained_block =
     (ResnetBlockFC_init 2 (Some 1) None quarter_resnet_seed)
       \<lparr>fc_1 := Linear_init 1 1 True quarter_seed\<rparr>"

definition trained_encoder :: PointEncoder where
  "trained_encoder =
     (PointEncoder_init 3 1 1 2 quarter_encoder_seed)
       \<lparr>pe_blocks := [trained_block, trained_block]\<rparr>"

section \<open>Properties\<close>

subsection \<open>Helper facts\<close>

lemma bind_err_simps [simp]:
  "bind_err (Inl e) f = Inl e"
  "bind_err (Inr v) f = f v"
  by (simp_all add: bind_err_def)

lemma bind_err_Inr_iff: "bind_err m f = Inr y \<longleftrightarrow> (\<exists>x. m = Inr x \<and> f x = Inr y)"
  by (cases m) simp_all

lemma py_index_error: "py_index xs i = Inl e \<Longrightarrow> e = IndexError"
  by (simp add: py_index_def split: option.splits)

lemma py_index_nat:
  "py_index gs (int d) = (if d < length gs then Inr (gs ! d) else Inl IndexError)"
  by (simp add: py_index_def py_resolve_def)

lemma tadd_same_shape:
  "nrows a = nrows b \<Longrightarrow> ncols a = ncols b \<Longrightarrow>
   tadd a b = Inr \<lparr>ncols = ncols a, rows = map2 (map2 (+)) (rows a) (rows b)\<rparr>"
  by (simp add: tadd_def bcast_dim_def expand_def)

lemma dot_zero_left: "dot (replicate n 0) x = 0"
  by (simp add: dot_def zip_replicate1 comp_def)

lemma affine_zeros_weight:
  "bias l = Some b \<Longrightarrow> length b = out_features l \<Longrightarrow> affine (zeros_weight l) x = b"
  by (simp add: affine_def zeros_weight_def dot_zero_left map_replicate_const zip_replicate1
      comp_def cong: map_cong)

lemma Linear_forward_zeros_weight:
  assumes "bias l = Some b" "length b = out_features l" "ncols x = in_features l"
  shows "Linear_forward (zeros_weight l) x =
           Inr \<lparr>ncols = out_features l, rows = replicate (nrows x) b\<rparr>"
proof -
  have "map (affine (zeros_weight l)) (rows x) = replicate (nrows x) b"
    by (rule replicate_eqI)
       (auto simp: affine_zeros_weight [OF assms(1,2)] nrows_def)
  then show ?thesis
    using assms(3) by (simp add: Linear_forward_def zeros_weight_def)
qed

lemma shortcut_value_shape:
  "shortcut_value (ResnetBlockFC_init s_in s_out_opt s_h_opt sd) x = Inr x_s \<Longrightarrow> ncols x = s_in \<Longrightarrow>
   nrows x_s = nrows x \<and>
   ncols x_s = size_out (ResnetBlockFC_init s_in s_out_opt s_h_opt sd)"
  by (auto simp: shortcut_value_def ResnetBlockFC_init_def Let_def Linear_forward_def
      Linear_init_def nrows_def split: if_splits option.splits)

subsection \<open>Layers and blocks of the declared shapes\<close>

lemma Linear_forward_ok:
  "ncols x = in_features l \<Longrightarrow>
   Linear_forward l x = Inr \<lparr>ncols = out_features l, rows = map (affine l) (rows x)\<rparr>"
  by (simp add: Linear_forward_def)

lemma Linear_init_shaped: "Linear_shaped (Linear_init n_in n_out has_bias sd) n_in n_out"
  by (simp add: Linear_shaped_def Linear_init_def list_all_iff)

lemma zeros_weight_shaped: "Linear_shaped l n_in n_out \<Longrightarrow> Linear_shaped (zeros_weight l) n_in n_out"
  by (simp add: Linear_shaped_def zeros_weight_def list_all_iff)

lemma ResnetBlockFC_init_shaped:
  "ResnetBlockFC_shaped (ResnetBlockFC_init s_in s_out_opt s_h_opt sd) s_in
     (size_out (ResnetBlockFC_init s_in s_out_opt s_h_opt sd))"
  by (simp add: ResnetBlockFC_shaped_def ResnetBlockFC_init_def Let_def Linear_init_shaped
      zeros_weight_shaped)

lemma PointEncoder_init_shaped:
  "0 < n_blocks \<Longrightarrow>
   PointEncoder_shaped (PointEncoder_init dim_in c_dim hidden_dim n_blocks sd) dim_in"
  using ResnetBlockFC_init_shaped [of "2 * hidden_dim" "Some hidden_dim" None]
  by (simp add: PointEncoder_shaped_def PointEncoder_init_def Linear_init_shaped list_all_iff
      ResnetBlockFC_init_def)

lemma Linear_shaped_forward:
  "Linear_shaped l n_in n_out \<Longrightarrow> ncols x = n_in \<Longrightarrow>
   \<exists>y. Linear_forward l x = Inr y \<and> ncols y = n_out \<and> nrows y = nrows x
      \<and> (\<forall>r\<in>set (rows y). length r = n_out)"
  by (auto simp: Linear_shaped_def Linear_forward_def nrows_def affine_def split: option.splits)

lemma ResnetBlockFC_shaped_returns:
  assumes "ResnetBlockFC_shaped blk s_in s_out" and "ncols x = s_in"
  shows "\<exists>y. ResnetBlockFC_forward blk x = Inr y \<and> ncols y = s_out \<and> nrows y = nrows x"
proof -
  from assms(1) have sh: "Linear_shaped (fc_0 blk) s_in (size_h blk)"
    "Linear_shaped (fc_1 blk) (size_h blk) s_out"
    "case shortcut blk of None \<Rightarrow> s_in = s_out | Some s \<Rightarrow> Linear_shaped s s_in s_out"
    by (simp_all add: ResnetBlockFC_shaped_def)
  from Linear_shaped_forward [OF sh(1), of "relu x"] obtain net where
    net: "Linear_forward (fc_0 blk) (relu x) = Inr net" "ncols net = size_h blk"
    "nrows net = nrows x"
    using assms(2) by (auto simp: relu_def nrows_def)
  from Linear_shaped_forward [OF sh(2), of "relu net"] obtain dx where
    dx: "Linear_forward (fc_1 blk) (relu net) = Inr dx" "ncols dx = s_out" "nrows dx = nrows x"
    using net(2,3) by (auto simp: relu_def nrows_def)
  obtain x_s where x_s: "shortcut_value blk x = Inr x_s" "ncols x_s = s_out"
    "nrows x_s = nrows x"
  proof (cases "shortcut blk")
    case None
    then show ?thesis
      using that sh(3) assms(2) by (simp add: shortcut_value_def)
  next
    case (Some s)
    with sh(3) have "Linear_shaped s s_in s_out" by simp
    from Linear_shaped_forward [OF this assms(2)] show ?thesis
      using that Some by (auto simp: shortcut_value_def)
  qed
  show ?thesis
    using net dx x_s tadd_same_shape [of x_s dx]
    by (simp add: ResnetBlockFC_forward_def nrows_def)
qed

subsection \<open>The residual block at initialisation\<close>

text \<open>
  C1, as stated: a freshly constructed block returns the shortcut value, that is \<open>x\<close> itself
  when \<open>size_in = size_out\<close> and the bias-free projection of \<open>x\<close> otherwise. This fails:
  only the weight of \<^verbatim>\<open>fc_1\<close> is zeroed, its bias keeps the value it was drawn with, and
  that bias is added to every row.
\<close>

theorem ResnetBlockFC_identity_at_init_counterexample:
  "ResnetBlockFC_forward (ResnetBlockFC_init 1 None None quarter_resnet_seed) origin1 =
     Inr \<lparr>ncols = 1, rows = [[1/4]]\<rparr>
   \<and> ResnetBlockFC_forward (ResnetBlockFC_init 1 None None quarter_resnet_seed) origin1
       \<noteq> Inr origin1
   \<and> ResnetBlockFC_forward (ResnetBlockFC_init 2 (Some 1) None quarter_resnet_seed) origin2 =
       Inr \<lparr>ncols = 1, rows = [[1/4]]\<rparr>
   \<and> shortcut_value (ResnetBlockFC_init 2 (Some 1) None quarter_resnet_seed) origin2 =
       Inr \<lparr>ncols = 1, rows = [[0]]\<rparr>"
  by (simp add: ResnetBlockFC_forward_def ResnetBlockFC_init_def shortcut_value_def
      quarter_resnet_seed_def quarter_seed_def origin1_def origin2_def Linear_init_def
      zeros_weight_def Linear_forward_def relu_def affine_def dot_def tadd_def bcast_dim_def
      expand_def nrows_def upt_conv_Cons)

text \<open>
  C1, amended: for an input of width \<open>size_in\<close>, a freshly constructed block returns the
  shortcut value with the bias of \<^verbatim>\<open>fc_1\<close> added to every row; the residual branch
  contributes exactly that bias, whatever \<open>x\<close> is.
\<close>

theorem ResnetBlockFC_init_forward:
  assumes "ncols x = s_in"
  shows "ResnetBlockFC_forward (ResnetBlockFC_init s_in s_out_opt s_h_opt sd) x =
           bind_err (shortcut_value (ResnetBlockFC_init s_in s_out_opt s_h_opt sd) x) (\<lambda>x_s.
             Inr (x_s\<lparr>rows := map (\<lambda>r. map2 (+) r (map (b_seed (fc_1_seed sd)) [0..<ncols x_s]))
                                (rows x_s)\<rparr>))"
proof -
  let ?blk = "ResnetBlockFC_init s_in s_out_opt s_h_opt sd"
  let ?l1 = "Linear_init (size_h ?blk) (size_out ?blk) True (fc_1_seed sd)"
  let ?b = "map (b_seed (fc_1_seed sd)) [0..<size_out ?blk]"
  have fc1: "fc_1 ?blk = zeros_weight ?l1"
    by (simp add: ResnetBlockFC_init_def Let_def)
  obtain net where net: "Linear_forward (fc_0 ?blk) (relu x) = Inr net"
    "ncols net = size_h ?blk" "nrows net = nrows x"
    using assms
    by (simp add: ResnetBlockFC_init_def Let_def Linear_forward_def Linear_init_def relu_def
        nrows_def)
  have dx: "Linear_forward (fc_1 ?blk) (relu net) =
              Inr \<lparr>ncols = size_out ?blk, rows = replicate (nrows x) ?b\<rparr>"
    unfolding fc1
    using Linear_forward_zeros_weight [of ?l1 ?b "relu net"] net(2,3)
    by (simp add: Linear_init_def relu_def nrows_def)
  show ?thesis
  proof (cases "shortcut_value ?blk x")
    case (Inl e)
    then show ?thesis
      by (simp add: ResnetBlockFC_forward_def net dx)
  next
    case (Inr x_s)
    from shortcut_value_shape [OF Inr assms]
    have sh: "nrows x_s = nrows x" "ncols x_s = size_out ?blk"
      by simp_all
    have "map2 (map2 (+)) (rows x_s) (replicate (nrows x) ?b) =
            map (\<lambda>r. map2 (+) r ?b) (rows x_s)"
      using sh(1) by (simp add: zip_replicate2 nrows_def comp_def)
    then have "tadd x_s \<lparr>ncols = size_out ?blk, rows = replicate (nrows x) ?b\<rparr> =
            Inr (x_s\<lparr>rows := map (\<lambda>r. map2 (+) r ?b) (rows x_s)\<rparr>)"
      using sh by (simp add: tadd_same_shape nrows_def)
    then show ?thesis
      using Inr sh(2) by (simp add: ResnetBlockFC_forward_def net dx)
  qed
qed

theorem ResnetBlockFC_init_forward_witness:
  "ncols origin1 = 1
   \<and> ResnetBlockFC_forward (ResnetBlockFC_init 1 None None quarter_resnet_seed) origin1 =
       Inr \<lparr>ncols = 1, rows = [[1/4]]\<rparr>"
  using ResnetBlockFC_init_forward [of origin1 1 None None quarter_resnet_seed]
  by (simp add: ResnetBlockFC_init_def shortcut_value_def quarter_resnet_seed_def quarter_seed_def
      origin1_def)

subsection \<open>Construction of the decoder\<close>

text \<open>
  C3: constructing a MultiscalePointDecoder with an aggregation mode other than \<open>cat\<close> or
  \<open>sum\<close> raises \<^verbatim>\<open>NotImplementedError\<close>, so no decoder exists to be evaluated; for
  \<open>cat\<close> the construction succeeds with \<open>c_dim = c_each_dim * multiscale_depths\<close>, for
  \<open>sum\<close> with \<open>c_dim = c_each_dim\<close>.
\<close>

theorem MultiscalePointDecoder_init_aggregation:
  "(aggregation \<noteq> ''cat'' \<and> aggregation \<noteq> ''sum'' \<longrightarrow>
      MultiscalePointDecoder_init c_each_dim multiscale_depths p_dim out_dim hidden_size n_blocks
        aggregation out_init coords_depths sd = Inl NotImplementedError)
   \<and> (aggregation = ''cat'' \<longrightarrow>
      (\<exists>dec. MultiscalePointDecoder_init c_each_dim multiscale_depths p_dim out_dim hidden_size
          n_blocks aggregation out_init coords_depths sd = Inr dec
        \<and> mpd_c_dim dec = c_each_dim * multiscale_depths))
   \<and> (aggregation = ''sum'' \<longrightarrow>
      (\<exists>dec. MultiscalePointDecoder_init c_each_dim multiscale_depths p_dim out_dim hidden_size
          n_blocks aggregation out_init coords_depths sd = Inr dec
        \<and> mpd_c_dim dec = c_each_dim))"
  by (simp add: MultiscalePointDecoder_init_def Let_def)

theorem MultiscalePointDecoder_init_aggregation_witness:
  "MultiscalePointDecoder_init 2 2 3 1 2 1 ''max'' None None quarter_decoder_seed
     = Inl NotImplementedError
   \<and> map_sum id mpd_c_dim
       (MultiscalePointDecoder_init 2 2 3 1 2 1 ''cat'' None None quarter_decoder_seed) = Inr 4
   \<and> map_sum id mpd_c_dim
       (MultiscalePointDecoder_init 2 2 3 1 2 1 ''sum'' None None quarter_decoder_seed) = Inr 2"
  using
    MultiscalePointDecoder_init_aggregation
      [of "''max''" 2 2 3 1 2 1 None None quarter_decoder_seed]
    MultiscalePointDecoder_init_aggregation
      [of "''cat''" 2 2 3 1 2 1 None None quarter_decoder_seed]
    MultiscalePointDecoder_init_aggregation
      [of "''sum''" 2 2 3 1 2 1 None None quarter_decoder_seed]
  by auto

subsection \<open>The encoder without a grid\<close>

text \<open>
  C9: when the grid of the requested depth is \<^verbatim>\<open>None\<close>, the forward pass of the
  PointEncoder raises \<^verbatim>\<open>AssertionError\<close>, whatever the encoder, the points and the
  features are: nothing is transformed, masked or aggregated, and there is no result.
\<close>

theorem PointEncoder_forward_no_grid:
  assumes "py_index (grids svh) depth = Inr None"
  shows "PointEncoder_forward enc pts_xyz pts_feature svh depth = Inl AssertionError"
  using assms by (simp add: PointEncoder_forward_def)

theorem PointEncoder_forward_no_grid_witness:
  "py_index (grids no_grid_svh) 0 = Inr None
   \<and> PointEncoder_forward (PointEncoder_init 3 1 1 2 quarter_encoder_seed) origin1 None
       no_grid_svh 0 = Inl AssertionError"
  using PointEncoder_forward_no_grid
    [of no_grid_svh 0 "PointEncoder_init 3 1 1 2 quarter_encoder_seed" origin1 None]
  by (simp add: no_grid_svh_def py_index_def py_resolve_def)

subsection \<open>Positional encoding of the decoder\<close>

lemma pos_feats_absent:
  "did \<in> set cds \<Longrightarrow> py_index gs did = Inr None \<Longrightarrow>
   pos_feats cds gs xyz = Inl AttributeError \<or> pos_feats cds gs xyz = Inl IndexError"
proof (induction cds)
  case Nil
  then show ?case by simp
next
  case (Cons a cds)
  show ?case
  proof (cases "py_index gs a")
    case (Inl e)
    then show ?thesis using py_index_error [OF Inl] by simp
  next
    case (Inr g_opt)
    show ?thesis
    proof (cases g_opt)
      case None
      then show ?thesis using Inr by simp
    next
      case (Some g)
      with Inr Cons.prems have "did \<in> set cds" by auto
      from Cons.IH [OF this Cons.prems(2)] show ?thesis
        using Inr Some by (auto simp: Let_def)
    qed
  qed
qed

text \<open>
  C10: the forward pass of the decoder needs a grid at every depth listed in
  \<open>coords_depths\<close>. If the grid of one of them is \<^verbatim>\<open>None\<close> the call fails: reading
  \<^verbatim>\<open>voxel_size\<close> raises \<^verbatim>\<open>AttributeError\<close>, unless an earlier entry of \<open>coords_depths\<close> is
  no index of \<^verbatim>\<open>svh.grids\<close> at all, which raises \<^verbatim>\<open>IndexError\<close> before.
\<close>

theorem MultiscalePointDecoder_forward_coords_grid_absent:
  assumes "did \<in> set (mpd_coords_depths dec)" and "py_index (grids svh) did = Inr None"
  shows "(MultiscalePointDecoder_forward dec xyz svh multiscale_feat = Inl AttributeError
          \<or> MultiscalePointDecoder_forward dec xyz svh multiscale_feat = Inl IndexError)
       \<and> (py_index (grids svh) (int d) = Inr None \<longrightarrow>
            sample_feats (d # ds) c (grids svh) multiscale_feat xyz =
              bind_err (sample_feats ds c (grids svh) multiscale_feat xyz)
                (\<lambda>cs. Inr (zeros (nrows xyz) c # cs)))"
  using pos_feats_absent [OF assms, of xyz]
  by (auto simp: MultiscalePointDecoder_forward_def)

subsection \<open>Aggregation across depths\<close>

lemma map2_replicate: "map2 f (replicate n a) (replicate n b) = replicate n (f a b)"
  by (simp add: zip_replicate)

lemma map_add_zero: "map ((+) (0::real)) v = v"
  by (induction v) simp_all

lemma cat1_rows_replicate:
  "foldr (\<lambda>u acc. map2 (@) (rows u) acc) (replicate D \<lparr>ncols = c, rows = replicate M v\<rparr>)
     (replicate M []) = replicate M (concat (replicate D v))"
  by (induction D) (simp_all add: map2_replicate)

lemma cat1_replicate:
  "0 < D \<Longrightarrow> cat1 (replicate D \<lparr>ncols = c, rows = replicate M v\<rparr>) =
     Inr \<lparr>ncols = D * c, rows = replicate M (concat (replicate D v))\<rparr>"
proof -
  assume "0 < D"
  then obtain n where D: "D = Suc n"
    by (cases D) auto
  show ?thesis
    using cat1_rows_replicate [of D c M v]
    by (simp add: D cat1_def nrows_def list_all_iff sum_list_replicate)
qed

lemma py_sum_from_replicate:
  "py_sum_from (PyTensor \<lparr>ncols = length v, rows = replicate M (map (\<lambda>a. real k * a) v)\<rparr>)
     (replicate n \<lparr>ncols = length v, rows = replicate M v\<rparr>) =
   Inr (PyTensor \<lparr>ncols = length v, rows = replicate M (map (\<lambda>a. real (k + n) * a) v)\<rparr>)"
proof (induction n arbitrary: k)
  case 0
  then show ?case by simp
next
  case (Suc n)
  have "map2 (+) (map (\<lambda>a. real k * a) v) v = map (\<lambda>a. real (Suc k) * a) v"
    by (induction v) (simp_all add: algebra_simps)
  then have "py_add (PyTensor \<lparr>ncols = length v, rows = replicate M (map (\<lambda>a. real k * a) v)\<rparr>)
       \<lparr>ncols = length v, rows = replicate M v\<rparr> =
     Inr (PyTensor \<lparr>ncols = length v, rows = replicate M (map (\<lambda>a. real (Suc k) * a) v)\<rparr>)"
    by (simp add: py_add_def tadd_same_shape nrows_def map2_replicate)
  then show ?case
    using Suc.IH [of "Suc k"] by simp
qed

text \<open>
  C7: when each of the \<open>D\<close> sampled features (\<open>D\<close> at least 1) is the tensor whose \<open>M\<close>
  rows all are the vector \<open>v\<close>, aggregation by \<open>cat\<close> gives rows that are \<open>D\<close> copies of
  \<open>v\<close> one after the other, of width \<open>D * length v\<close>, and aggregation by \<open>sum\<close> gives rows
  \<open>D * v\<close> of width \<open>length v\<close>.
\<close>

theorem aggregate_constant:
  assumes "0 < D" and "c_feats = replicate D \<lparr>ncols = length v, rows = replicate M v\<rparr>"
  shows "aggregate ''cat'' c_feats =
           Inr (PyTensor \<lparr>ncols = D * length v, rows = replicate M (concat (replicate D v))\<rparr>)
       \<and> aggregate ''sum'' c_feats =
           Inr (PyTensor \<lparr>ncols = length v, rows = replicate M (map (\<lambda>a. real D * a) v)\<rparr>)"
proof -
  obtain n where D: "D = Suc n"
    using assms(1) by (cases D) auto
  have first: "py_add (PyInt 0) \<lparr>ncols = length v, rows = replicate M v\<rparr> =
      Inr (PyTensor \<lparr>ncols = length v, rows = replicate M (map (\<lambda>a. real 1 * a) v)\<rparr>)"
    by (simp add: py_add_def map_add_zero)
  have "py_sum c_feats =
      Inr (PyTensor \<lparr>ncols = length v, rows = replicate M (map (\<lambda>a. real D * a) v)\<rparr>)"
    unfolding py_sum_def assms(2) D
    using py_sum_from_replicate [of v M 1 n] first by simp
  then show ?thesis
    using cat1_replicate [OF assms(1), of "length v" M v]
    by (simp add: aggregate_def assms(2))
qed

theorem aggregate_constant_witness:
  "aggregate ''cat'' [\<lparr>ncols = 2, rows = [[1, 3]]\<rparr>, \<lparr>ncols = 2, rows = [[1, 3]]\<rparr>] =
      Inr (PyTensor \<lparr>ncols = 4, rows = [[1, 3, 1, 3]]\<rparr>)
   \<and> aggregate ''sum'' [\<lparr>ncols = 2, rows = [[1, 3]]\<rparr>, \<lparr>ncols = 2, rows = [[1, 3]]\<rparr>] =
      Inr (PyTensor \<lparr>ncols = 2, rows = [[2, 6]]\<rparr>)"
  using aggregate_constant
    [of 2 "[\<lparr>ncols = 2, rows = [[1, 3]]\<rparr>, \<lparr>ncols = 2, rows = [[1, 3]]\<rparr>]" "[1, 3]" 1]
  by (simp add: numeral_2_eq_2)

subsection \<open>Evaluation of the decoder on the concrete inputs\<close>

lemmas decoder_defs =
  bind_err_def py_resolve_def py_index_def nrows_def zeros_def relu_def bcast_dim_def expand_def
  tadd_def cat1_def Linear_init_def dot_def affine_def Linear_forward_def zeros_weight_def
  constant_bias_def ResnetBlockFC_init_def shortcut_value_def ResnetBlockFC_forward_def
  MultiscalePointDecoder_init_def local_coord_def py_mod_def py_add_def py_sum_def aggregate_def
  Linear_call_def MultiscalePointDecoder_forward_def quarter_seed_def quarter_resnet_seed_def
  quarter_decoder_seed_def unit_grid_def query1_def small_decoder_def coarse_only_svh_def
  full_svh_def small_feat_def Let_def upt_conv_Cons

lemma small_decoder_init:
  "MultiscalePointDecoder_init 1 2 3 1 1 1 ''cat'' out_init coords quarter_decoder_seed =
     Inr (small_decoder ''cat'' out_init coords)"
  by (simp add: small_decoder_def MultiscalePointDecoder_init_def Let_def)

lemma small_decoder_coords:
  "mpd_coords_depths (small_decoder ''cat'' out_init None) = [0, 1]"
  "mpd_coords_depths (small_decoder ''cat'' out_init (Some [1])) = [1]"
  "mpd_multiscale_depths (small_decoder ''cat'' out_init coords) = 2"
  "mpd_c_each_dim (small_decoder ''cat'' out_init coords) = 1"
  by (simp_all add: small_decoder_def MultiscalePointDecoder_init_def Let_def upt_conv_Cons)

lemma small_decoder_coarse_only:
  "MultiscalePointDecoder_forward (small_decoder ''cat'' None (Some [1])) query1 coarse_only_svh
     small_feat = Inr \<lparr>ncols = 1, rows = [[27/64]]\<rparr>"
  by (simp add: decoder_defs)

lemma small_decoder_full:
  "MultiscalePointDecoder_forward (small_decoder ''cat'' None (Some [1])) query1 full_svh
     small_feat = Inr \<lparr>ncols = 1, rows = [[27/64]]\<rparr>"
  by (simp add: decoder_defs)

lemma small_decoder_out_init:
  "MultiscalePointDecoder_forward (small_decoder ''cat'' (Some 3) (Some [1])) query1
     coarse_only_svh small_feat = Inr \<lparr>ncols = 1, rows = [[3]]\<rparr>"
  by (simp add: decoder_defs)

theorem MultiscalePointDecoder_forward_coords_grid_absent_witness:
  "0 \<in> set (mpd_coords_depths (small_decoder ''cat'' None None))
   \<and> py_index (grids coarse_only_svh) 0 = Inr None
   \<and> MultiscalePointDecoder_forward (small_decoder ''cat'' None None) query1 coarse_only_svh
       small_feat = Inl AttributeError
   \<and> MultiscalePointDecoder_forward (small_decoder ''cat'' None (Some [1])) query1
       coarse_only_svh small_feat = Inr \<lparr>ncols = 1, rows = [[27/64]]\<rparr>"
proof -
  have h1: "0 \<in> set (mpd_coords_depths (small_decoder ''cat'' None None))"
    by (simp add: small_decoder_coords)
  have h2: "py_index (grids coarse_only_svh) 0 = Inr None"
    by (simp add: coarse_only_svh_def py_index_def py_resolve_def)
  have "MultiscalePointDecoder_forward (small_decoder ''cat'' None None) query1 coarse_only_svh
       small_feat \<noteq> Inl IndexError"
    by (simp add: decoder_defs)
  with MultiscalePointDecoder_forward_coords_grid_absent [OF h1 h2, of query1 small_feat] h1 h2
    small_decoder_coarse_only
  show ?thesis by blast
qed

subsection \<open>The decoder with an initial output value\<close>

lemma affine_weight_zero:
  "weight l = replicate n (replicate m 0) \<Longrightarrow> bias l = Some b \<Longrightarrow> length b = n \<Longrightarrow>
   affine l x = b"
  by (simp add: affine_def dot_zero_left map_replicate_const zip_replicate1 comp_def
      cong: map_cong)

lemma fc_out_init:
  assumes "MultiscalePointDecoder_init c_each_dim multiscale_depths p_dim out_dim hidden_size
             n_blocks aggregation (Some v) coords_depths sd = Inr dec"
  shows "weight (mpd_fc_out dec) = replicate out_dim (replicate hidden_size 0)"
    and "bias (mpd_fc_out dec) = Some (replicate out_dim v)"
    and "out_features (mpd_fc_out dec) = out_dim"
  using assms
  by (auto simp: MultiscalePointDecoder_init_def Let_def bind_err_Inr_iff constant_bias_def
      zeros_weight_def Linear_init_def map_replicate_const comp_def split: if_splits)

lemma pos_feats_ok:
  assumes "\<forall>k\<in>set cds. \<exists>g. py_index gs k = Inr (Some g)"
  shows "\<exists>ps. pos_feats cds gs xyz = Inr ps \<and> length ps = length cds
           \<and> (\<forall>p\<in>set ps. nrows p = nrows xyz \<and> ncols p = ncols xyz)"
  using assms
proof (induction cds)
  case Nil
  then show ?case by simp
next
  case (Cons k cds)
  from Cons.prems obtain g where g: "py_index gs k = Inr (Some g)"
    by auto
  from Cons obtain ps where "pos_feats cds gs xyz = Inr ps" "length ps = length cds"
    "\<forall>p\<in>set ps. nrows p = nrows xyz \<and> ncols p = ncols xyz"
    by auto
  then show ?case
    using g by (simp add: Let_def nrows_def)
qed

lemma length_cat1_rows:
  "\<forall>t\<in>set ts. nrows t = n \<Longrightarrow>
   length (foldr (\<lambda>u acc. map2 (@) (rows u) acc) ts (replicate n [])) = n"
  by (induction ts) (simp_all add: nrows_def)

lemma cat1_ok:
  assumes "ts \<noteq> []" and "\<forall>t\<in>set ts. nrows t = n"
  shows "\<exists>c. cat1 ts = Inr c \<and> nrows c = n \<and> ncols c = sum_list (map ncols ts)"
proof -
  obtain t ts' where ts: "ts = t # ts'"
    using assms(1) by (cases ts) auto
  have "list_all (\<lambda>u. nrows u = nrows t) ts" and "nrows t = n"
    using assms(2) by (auto simp: ts list_all_iff)
  then show ?thesis
    using length_cat1_rows [OF assms(2)]
    by (simp add: cat1_def ts nrows_def)
qed

lemma sample_feats_ok:
  assumes "\<forall>d\<in>set ds. \<exists>go. py_index gs (int d) = Inr go
      \<and> (\<forall>g. go = Some g \<longrightarrow> (\<exists>f. multiscale_feat d = Some f
            \<and> nrows (sample_trilinear g xyz f) = nrows xyz
            \<and> ncols (sample_trilinear g xyz f) = c))"
  shows "\<exists>cs. sample_feats ds c gs multiscale_feat xyz = Inr cs \<and> length cs = length ds
           \<and> (\<forall>t\<in>set cs. nrows t = nrows xyz \<and> ncols t = c)"
  using assms
proof (induction ds)
  case Nil
  then show ?case by simp
next
  case (Cons d ds)
  from Cons.prems obtain go where go: "py_index gs (int d) = Inr go"
    and some: "\<forall>g. go = Some g \<longrightarrow> (\<exists>f. multiscale_feat d = Some f
            \<and> nrows (sample_trilinear g xyz f) = nrows xyz
            \<and> ncols (sample_trilinear g xyz f) = c)"
    by auto
  obtain t where t: "(case go of None \<Rightarrow> Inr (zeros (nrows xyz) c)
        | Some g \<Rightarrow> (case multiscale_feat d of None \<Rightarrow> Inl KeyError
                     | Some f \<Rightarrow> Inr (sample_trilinear g xyz f))) = Inr t"
    "nrows t = nrows xyz" "ncols t = c"
    using some by (cases go) (auto simp: zeros_def nrows_def)
  from Cons obtain cs where "sample_feats ds c gs multiscale_feat xyz = Inr cs"
    "length cs = length ds" "\<forall>t\<in>set cs. nrows t = nrows xyz \<and> ncols t = c"
    by auto
  then show ?case
    using go t by simp
qed

lemma py_sum_from_ok:
  assumes "\<forall>t\<in>set ts. nrows t = n \<and> ncols t = c" and "nrows a = n" and "ncols a = c"
  shows "\<exists>s. py_sum_from (PyTensor a) ts = Inr (PyTensor s) \<and> nrows s = n \<and> ncols s = c"
  using assms
proof (induction ts arbitrary: a)
  case Nil
  then show ?case by simp
next
  case (Cons t ts)
  have "py_add (PyTensor a) t =
      Inr (PyTensor \<lparr>ncols = c, rows = map2 (map2 (+)) (rows a) (rows t)\<rparr>)"
    using Cons.prems by (simp add: py_add_def tadd_same_shape)
  moreover have "\<exists>s. py_sum_from (PyTensor \<lparr>ncols = c, rows = map2 (map2 (+)) (rows a) (rows t)\<rparr>)
      ts = Inr (PyTensor s) \<and> nrows s = n \<and> ncols s = c"
    using Cons.prems by (intro Cons.IH) (auto simp: nrows_def)
  ultimately show ?case by simp
qed

lemma py_sum_ok:
  assumes "ts \<noteq> []" and "\<forall>t\<in>set ts. nrows t = n \<and> ncols t = c"
  shows "\<exists>s. py_sum ts = Inr (PyTensor s) \<and> nrows s = n \<and> ncols s = c"
proof -
  obtain t ts' where ts: "ts = t # ts'"
    using assms(1) by (cases ts) auto
  have "map (map ((+) (0::real))) (rows t) = rows t"
    by (induction "rows t") (simp_all add: map_add_zero map_idI)
  then have "py_add (PyInt 0) t = Inr (PyTensor t)"
    by (simp add: py_add_def)
  moreover have "\<exists>s. py_sum_from (PyTensor t) ts' = Inr (PyTensor s) \<and> nrows s = n \<and> ncols s = c"
    using assms(2) by (intro py_sum_from_ok) (auto simp: ts)
  ultimately show ?thesis
    by (simp add: py_sum_def ts)
qed

lemma fuse_ok:
  assumes fc: "\<forall>i\<in>set js. \<exists>l. py_index (mpd_fc_c dec) (int i) = Inr l \<and> Linear_shaped l c_dim h"
    and bl: "\<forall>i\<in>set js. \<exists>b. py_index (mpd_blocks dec) (int i) = Inr b
               \<and> ResnetBlockFC_shaped b h h"
    and c: "ncols ct = c_dim" "nrows ct = m"
    and net: "ncols net = h" "nrows net = m"
  shows "\<exists>net'. fuse js dec (PyTensor ct) net = Inr net' \<and> ncols net' = h \<and> nrows net' = m"
  using fc bl net
proof (induction js arbitrary: net)
  case Nil
  then show ?case by simp
next
  case (Cons i js)
  from Cons.prems(1) obtain l where l: "py_index (mpd_fc_c dec) (int i) = Inr l"
    "Linear_shaped l c_dim h"
    by auto
  from Cons.prems(2) obtain b where b: "py_index (mpd_blocks dec) (int i) = Inr b"
    "ResnetBlockFC_shaped b h h"
    by auto
  from Linear_shaped_forward [OF l(2) c(1)] obtain hc where
    hc: "Linear_forward l ct = Inr hc" "ncols hc = h" "nrows hc = m"
    using c(2) by auto
  have add: "tadd net hc = Inr \<lparr>ncols = h, rows = map2 (map2 (+)) (rows net) (rows hc)\<rparr>"
    using Cons.prems(3,4) hc(2,3) by (simp add: tadd_same_shape)
  have "nrows \<lparr>ncols = h, rows = map2 (map2 (+)) (rows net) (rows hc)\<rparr> = m"
    using Cons.prems(4) hc(3) by (simp add: nrows_def)
  with ResnetBlockFC_shaped_returns [OF b(2), of "\<lparr>ncols = h, rows = map2 (map2 (+)) (rows net) (rows hc)\<rparr>"]
  obtain net2 where net2: "ResnetBlockFC_forward b
      \<lparr>ncols = h, rows = map2 (map2 (+)) (rows net) (rows hc)\<rparr> = Inr net2"
    "ncols net2 = h" "nrows net2 = m"
    by auto
  from Cons.IH [OF _ _ net2(2,3)] Cons.prems(1,2) obtain net' where
    "fuse js dec (PyTensor ct) net2 = Inr net'" "ncols net' = h" "nrows net' = m"
    by auto
  then show ?case
    using l(1) b(1) hc(1) add net2(1) by (simp add: Linear_call_def)
qed


lemma sum_list_const: "\<forall>x\<in>set xs. f x = (w::nat) \<Longrightarrow> sum_list (map f xs) = length xs * w"
  by (induction xs) simp_all

lemma decoder_init_fields:
  assumes "MultiscalePointDecoder_init c_each_dim multiscale_depths p_dim out_dim hidden_size
             n_blocks aggregation out_init coords_depths sd = Inr dec"
  shows "mpd_c_dim dec = (if aggregation = ''cat'' then c_each_dim * multiscale_depths
                          else c_each_dim)"
    and "mpd_aggregation dec = aggregation"
    and "mpd_c_each_dim dec = c_each_dim"
    and "mpd_multiscale_depths dec = multiscale_depths"
    and "mpd_n_blocks dec = n_blocks"
    and "Linear_shaped (mpd_fc_p dec) (p_dim * length (mpd_coords_depths dec)) hidden_size"
    and "\<forall>i\<in>set [0..<n_blocks]. \<exists>l. py_index (mpd_fc_c dec) (int i) = Inr l
           \<and> Linear_shaped l (mpd_c_dim dec) hidden_size"
    and "\<forall>i\<in>set [0..<n_blocks]. \<exists>b. py_index (mpd_blocks dec) (int i) = Inr b
           \<and> ResnetBlockFC_shaped b hidden_size hidden_size"
    and "in_features (mpd_fc_out dec) = hidden_size"
proof -
  from assms have agg: "aggregation = ''cat'' \<or> aggregation = ''sum''"
    by (auto simp: MultiscalePointDecoder_init_def split: if_splits)
  from assms agg show c_dim: "mpd_c_dim dec = (if aggregation = ''cat''
      then c_each_dim * multiscale_depths else c_each_dim)"
    and "mpd_aggregation dec = aggregation" and "mpd_c_each_dim dec = c_each_dim"
    and "mpd_multiscale_depths dec = multiscale_depths" and "mpd_n_blocks dec = n_blocks"
    by (auto simp: MultiscalePointDecoder_init_def Let_def)
  from assms agg have fc_p: "mpd_fc_p dec =
      Linear_init (p_dim * length (mpd_coords_depths dec)) hidden_size True (mpd_fc_p_seed sd)"
    and fc_c: "mpd_fc_c dec =
      map (\<lambda>i. Linear_init (mpd_c_dim dec) hidden_size True (mpd_fc_c_seed sd i)) [0..<n_blocks]"
    and blocks: "mpd_blocks dec =
      map (\<lambda>i. ResnetBlockFC_init hidden_size None None (mpd_blocks_seed sd i)) [0..<n_blocks]"
    and fc_out: "in_features (mpd_fc_out dec) = hidden_size"
    by (auto simp: MultiscalePointDecoder_init_def Let_def Linear_init_def zeros_weight_def
        constant_bias_def split: option.splits)
  show "Linear_shaped (mpd_fc_p dec) (p_dim * length (mpd_coords_depths dec)) hidden_size"
    by (simp add: fc_p Linear_init_shaped)
  show "\<forall>i\<in>set [0..<n_blocks]. \<exists>l. py_index (mpd_fc_c dec) (int i) = Inr l
           \<and> Linear_shaped l (mpd_c_dim dec) hidden_size"
    by (simp add: fc_c py_index_nat Linear_init_shaped)
  have "ResnetBlockFC_shaped (ResnetBlockFC_init hidden_size None None s) hidden_size
      hidden_size" for s
    using ResnetBlockFC_init_shaped [of hidden_size None None s]
    by (simp add: ResnetBlockFC_init_def)
  then show "\<forall>i\<in>set [0..<n_blocks]. \<exists>b. py_index (mpd_blocks dec) (int i) = Inr b
           \<and> ResnetBlockFC_shaped b hidden_size hidden_size"
    by (simp add: blocks py_index_nat)
  show "in_features (mpd_fc_out dec) = hidden_size"
    by (rule fc_out)
qed

text \<open>
  C5, as stated: a decoder constructed with \<open>out_init = v\<close> returns \<open>v\<close> in every output
  component for every query point and every hierarchy and feature input. This fails for a
  hierarchy without a grid at a depth of \<open>coords_depths\<close>: the forward pass raises and
  returns nothing.
\<close>

theorem MultiscalePointDecoder_out_init_counterexample:
  "MultiscalePointDecoder_init 1 2 3 1 1 1 ''cat'' (Some 3) None quarter_decoder_seed =
     Inr (small_decoder ''cat'' (Some 3) None)
   \<and> MultiscalePointDecoder_forward (small_decoder ''cat'' (Some 3) None) query1
       coarse_only_svh small_feat = Inl AttributeError"
  using small_decoder_init [of "Some 3" None] by (simp add: decoder_defs)

text \<open>
  C5, amended: a decoder constructed with \<open>out_init = v\<close> has an output layer whose weight
  is all zeros and whose bias is the constant \<open>v\<close>. Whenever its forward pass returns, the
  output has \<open>out_dim\<close> columns and \<open>v\<close> in every component of every row. It does return,
  with exactly one such row for every query point, when the queries have \<open>p_dim\<close> columns,
  there is at least one depth, every depth of \<open>coords_depths\<close> (of which there is one) has a
  grid, and every depth below \<open>multiscale_depths\<close> is an index of the hierarchy with, where
  its grid is present, a feature tensor that the grid samples to one row of \<open>c_each_dim\<close>
  columns for every query. Entries are exact reals here.
\<close>

theorem MultiscalePointDecoder_out_init:
  assumes init: "MultiscalePointDecoder_init c_each_dim multiscale_depths p_dim out_dim
             hidden_size n_blocks aggregation (Some v) coords_depths sd = Inr dec"
  shows "weight (mpd_fc_out dec) = replicate out_dim (replicate hidden_size 0)
       \<and> bias (mpd_fc_out dec) = Some (replicate out_dim v)
       \<and> (\<forall>out. MultiscalePointDecoder_forward dec xyz svh multiscale_feat = Inr out \<longrightarrow>
            out = \<lparr>ncols = out_dim, rows = replicate (nrows out) (replicate out_dim v)\<rparr>)
       \<and> (ncols xyz = p_dim \<and> 0 < multiscale_depths \<and> mpd_coords_depths dec \<noteq> []
          \<and> (\<forall>k\<in>set (mpd_coords_depths dec). \<exists>g. py_index (grids svh) k = Inr (Some g))
          \<and> (\<forall>d<multiscale_depths. \<exists>go. py_index (grids svh) (int d) = Inr go
                \<and> (\<forall>g. go = Some g \<longrightarrow> (\<exists>f. multiscale_feat d = Some f
                      \<and> nrows (sample_trilinear g xyz f) = nrows xyz
                      \<and> ncols (sample_trilinear g xyz f) = c_each_dim)))
          \<longrightarrow> MultiscalePointDecoder_forward dec xyz svh multiscale_feat =
                Inr \<lparr>ncols = out_dim, rows = replicate (nrows xyz) (replicate out_dim v)\<rparr>)"
proof -
  note fc = fc_out_init [OF init]
  note fld = decoder_init_fields [OF init]
  have last: "Linear_forward (mpd_fc_out dec) (relu net) =
      Inr \<lparr>ncols = out_dim, rows = replicate (nrows net) (replicate out_dim v)\<rparr>"
    if "ncols net = hidden_size" for net
  proof -
    have "map (affine (mpd_fc_out dec)) (rows (relu net)) =
        replicate (nrows net) (replicate out_dim v)"
      by (rule replicate_eqI)
         (auto simp: affine_weight_zero [OF fc(1,2)] nrows_def relu_def)
    then show ?thesis
      using that fld(9) fc(3) by (simp add: Linear_forward_def relu_def)
  qed
  have cond: "out = \<lparr>ncols = out_dim, rows = replicate (nrows out) (replicate out_dim v)\<rparr>"
    if "MultiscalePointDecoder_forward dec xyz svh multiscale_feat = Inr out" for out
  proof -
    from that obtain net where "Linear_forward (mpd_fc_out dec) (relu net) = Inr out"
      by (auto simp: MultiscalePointDecoder_forward_def bind_err_Inr_iff)
    then have "out = \<lparr>ncols = out_dim, rows = map (affine (mpd_fc_out dec)) (rows (relu net))\<rparr>"
      by (auto simp: Linear_forward_def fc(3) split: if_splits)
    moreover have "map (affine (mpd_fc_out dec)) (rows (relu net)) =
        replicate (nrows net) (replicate out_dim v)"
      by (rule replicate_eqI)
         (auto simp: affine_weight_zero [OF fc(1,2)] nrows_def relu_def)
    ultimately show ?thesis
      by (simp add: nrows_def)
  qed
  have total: "MultiscalePointDecoder_forward dec xyz svh multiscale_feat =
      Inr \<lparr>ncols = out_dim, rows = replicate (nrows xyz) (replicate out_dim v)\<rparr>"
    if w: "ncols xyz = p_dim" and D: "0 < multiscale_depths"
      and ne: "mpd_coords_depths dec \<noteq> []"
      and pg: "\<forall>k\<in>set (mpd_coords_depths dec). \<exists>g. py_index (grids svh) k = Inr (Some g)"
      and sg: "\<forall>d<multiscale_depths. \<exists>go. py_index (grids svh) (int d) = Inr go
                \<and> (\<forall>g. go = Some g \<longrightarrow> (\<exists>f. multiscale_feat d = Some f
                      \<and> nrows (sample_trilinear g xyz f) = nrows xyz
                      \<and> ncols (sample_trilinear g xyz f) = c_each_dim))"
  proof -
    let ?cds = "mpd_coords_depths dec"
    from pos_feats_ok [OF pg, of xyz] obtain ps where
      ps: "pos_feats ?cds (grids svh) xyz = Inr ps" "length ps = length ?cds"
      "\<forall>p\<in>set ps. nrows p = nrows xyz \<and> ncols p = ncols xyz"
      by auto
    have "ps \<noteq> []"
      using ps(2) ne by auto
    from cat1_ok [OF this, of "nrows xyz"] ps(3) obtain p where
      p: "cat1 ps = Inr p" "nrows p = nrows xyz" "ncols p = sum_list (map ncols ps)"
      by auto
    have p_w: "ncols p = p_dim * length ?cds"
      using sum_list_const [of ps ncols "ncols xyz"] ps(2,3) p(3) w by simp
    have "\<forall>d\<in>set [0..<multiscale_depths]. \<exists>go. py_index (grids svh) (int d) = Inr go
        \<and> (\<forall>g. go = Some g \<longrightarrow> (\<exists>f. multiscale_feat d = Some f
              \<and> nrows (sample_trilinear g xyz f) = nrows xyz
              \<and> ncols (sample_trilinear g xyz f) = c_each_dim))"
      using sg by simp
    from sample_feats_ok [OF this] obtain cs where
      cs: "sample_feats [0..<multiscale_depths] c_each_dim (grids svh) multiscale_feat xyz =
        Inr cs" "length cs = multiscale_depths"
      "\<forall>t\<in>set cs. nrows t = nrows xyz \<and> ncols t = c_each_dim"
      by auto
    have cs_ne: "cs \<noteq> []"
      using cs(2) D by auto
    obtain ct where ct: "aggregate aggregation cs = Inr (PyTensor ct)"
      "ncols ct = mpd_c_dim dec" "nrows ct = nrows xyz"
    proof (cases "aggregation = ''cat''")
      case True
      from cat1_ok [OF cs_ne, of "nrows xyz"] cs(3) obtain c where
        c: "cat1 cs = Inr c" "nrows c = nrows xyz" "ncols c = sum_list (map ncols cs)"
        by auto
      have "ncols c = c_each_dim * multiscale_depths"
        using sum_list_const [of cs ncols c_each_dim] cs(2,3) c(3) by simp
      then show ?thesis
        using that [of c] c(1,2) True fld(1) by (simp add: aggregate_def)
    next
      case False
      from py_sum_ok [OF cs_ne cs(3)] obtain c where
        c: "py_sum cs = Inr (PyTensor c)" "nrows c = nrows xyz" "ncols c = c_each_dim"
        by auto
      then show ?thesis
        using that [of c] False fld(1) by (simp add: aggregate_def)
    qed
    from Linear_shaped_forward [OF fld(6) p_w] obtain net where
      net: "Linear_forward (mpd_fc_p dec) p = Inr net" "ncols net = hidden_size"
      "nrows net = nrows xyz"
      using p(2) by auto
    from fuse_ok [OF fld(7,8) ct(2,3) net(2,3)] obtain net' where
      net': "fuse [0..<n_blocks] dec (PyTensor ct) net = Inr net'" "ncols net' = hidden_size"
      "nrows net' = nrows xyz"
      by auto
    show ?thesis
      using ps(1) p(1) cs(1) ct(1) net(1) net'(1) last [OF net'(2)] net'(3)
      by (simp add: MultiscalePointDecoder_forward_def fld(2-5))
  qed
  show ?thesis
    using fc(1,2) cond total by blast
qed

theorem MultiscalePointDecoder_out_init_witness:
  "MultiscalePointDecoder_init 1 2 3 1 1 1 ''cat'' (Some 3) None quarter_decoder_seed =
     Inr (small_decoder ''cat'' (Some 3) None)
   \<and> ncols query2 = 3
   \<and> mpd_coords_depths (small_decoder ''cat'' (Some 3) None) = [0, 1]
   \<and> grids full_svh = [Some unit_grid, Some unit_grid]
   \<and> small_feat 0 = Some \<lparr>ncols = 1, rows = [[7]]\<rparr>
   \<and> small_feat 1 = Some \<lparr>ncols = 1, rows = [[7]]\<rparr>
   \<and> sample_trilinear unit_grid query2 \<lparr>ncols = 1, rows = [[7]]\<rparr> = zeros 2 1
   \<and> MultiscalePointDecoder_forward (small_decoder ''cat'' (Some 3) None) query2 full_svh
       small_feat = Inr \<lparr>ncols = 1, rows = [[3], [3]]\<rparr>"
proof -
  let ?dec = "small_decoder ''cat'' (Some 3) None"
  let ?f = "\<lparr>ncols = 1, rows = [[7]]\<rparr>"
  have init: "MultiscalePointDecoder_init 1 2 3 1 1 1 ''cat'' (Some 3) None
      quarter_decoder_seed = Inr ?dec"
    by (rule small_decoder_init)
  have cds: "mpd_coords_depths ?dec = [0, 1]"
    by (rule small_decoder_coords)
  have facts: "ncols query2 = 3" "grids full_svh = [Some unit_grid, Some unit_grid]"
    "small_feat 0 = Some ?f" "small_feat 1 = Some ?f"
    "sample_trilinear unit_grid query2 ?f = zeros 2 1" "nrows query2 = 2"
    by (simp_all add: query2_def full_svh_def small_feat_def unit_grid_def nrows_def zeros_def
        numeral_2_eq_2)
  have pg: "\<forall>k\<in>set (mpd_coords_depths ?dec). \<exists>g. py_index (grids full_svh) k = Inr (Some g)"
    by (simp add: cds facts(2) py_index_def py_resolve_def)
  have sg: "\<forall>d<2. \<exists>go. py_index (grids full_svh) (int d) = Inr go
      \<and> (\<forall>g. go = Some g \<longrightarrow> (\<exists>f. small_feat d = Some f
            \<and> nrows (sample_trilinear g query2 f) = nrows query2
            \<and> ncols (sample_trilinear g query2 f) = 1))"
  proof (intro allI impI)
    fix d :: nat
    assume "d < 2"
    then have "d = 0 \<or> d = 1"
      by auto
    then show "\<exists>go. py_index (grids full_svh) (int d) = Inr go
      \<and> (\<forall>g. go = Some g \<longrightarrow> (\<exists>f. small_feat d = Some f
            \<and> nrows (sample_trilinear g query2 f) = nrows query2
            \<and> ncols (sample_trilinear g query2 f) = 1))"
      using facts by (auto simp: py_index_nat zeros_def nrows_def)
  qed
  have "MultiscalePointDecoder_forward ?dec query2 full_svh small_feat =
      Inr \<lparr>ncols = 1, rows = replicate (nrows query2) (replicate 1 3)\<rparr>"
    by (rule mp [OF MultiscalePointDecoder_out_init [OF init, of query2 full_svh small_feat,
            THEN conjunct2, THEN conjunct2, THEN conjunct2]])
       (intro conjI pg sg, simp_all add: facts(1) cds)
  then have "MultiscalePointDecoder_forward ?dec query2 full_svh small_feat =
      Inr \<lparr>ncols = 1, rows = [[3], [3]]\<rparr>"
    by (simp add: facts(6) numeral_2_eq_2)
  with init cds facts(1-5) show ?thesis
    by blast
qed

subsection \<open>Absent depths in the decoder\<close>








subsection \<open>Evaluation of the encoder on the concrete inputs\<close>

lemmas encoder_defs =
  bind_err_def py_resolve_def py_index_def nrows_def relu_def bcast_dim_def expand_def
  tadd_def cat1_def mask_select_def tensor_mask_def Linear_init_def dot_def affine_def
  Linear_forward_def zeros_weight_def ResnetBlockFC_init_def shortcut_value_def
  ResnetBlockFC_forward_def group_rows_def index_ok_def scatter_max_def scatter_mean_def
  mean_entry_def
  index_rows_def PointEncoder_init_def round_half_even_def py_mod_def PointEncoder_forward_def
  quarter_seed_def quarter_resnet_seed_def quarter_encoder_seed_def two_voxel_grid_def one_grid_svh_def
  cloud3_def cloud2_def cloud3_feat_def cloud2_feat_def Let_def upt_conv_Cons

lemma point_voxel_cloud3:
  "map (point_voxel two_voxel_grid) (rows cloud3) = [0, - 1, 0]"
  by (simp add: point_voxel_def two_voxel_grid_def cloud3_def round_half_even_def)

lemma encode_cloud2:
  "PointEncoder_forward (PointEncoder_init 3 1 1 2 quarter_encoder_seed) cloud2 None one_grid_svh 0 =
     Inr \<lparr>ncols = 1, rows = [[395/1024], [0]]\<rparr>"
  by (simp add: encoder_defs)

lemma encode_cloud2_feat:
  "PointEncoder_forward (PointEncoder_init 4 1 1 2 quarter_encoder_seed) cloud2 (Some cloud2_feat)
     one_grid_svh 0 = Inr \<lparr>ncols = 1, rows = [[421/1024], [0]]\<rparr>"
  by (simp add: encoder_defs)

lemma encode_cloud3:
  "PointEncoder_forward (PointEncoder_init 3 1 1 2 quarter_encoder_seed) cloud3 None one_grid_svh 0 =
     Inr \<lparr>ncols = 1, rows = [[395/1024], [0]]\<rparr>"
  by (simp add: encoder_defs)

lemma encode_trained:
  "PointEncoder_forward trained_encoder cloud3 None one_grid_svh 0 =
     Inr \<lparr>ncols = 1, rows = [[7251/16384], [0]]\<rparr>"
  by (simp add: encoder_defs trained_encoder_def trained_block_def)

subsection \<open>Points outside the active voxels\<close>

lemma mask_select_insert:
  "length xs = length ms \<Longrightarrow>
   mask_select (xs @ x # ys) (ms @ False # ns) = mask_select (xs @ ys) (ms @ ns)"
  by (simp add: mask_select_def)

lemma tensor_mask_insert:
  "length xs = length ms \<Longrightarrow>
   tensor_mask \<lparr>ncols = n, rows = xs @ x # ys\<rparr> (ms @ False # ns) =
   tensor_mask \<lparr>ncols = n, rows = xs @ ys\<rparr> (ms @ ns)"
  by (simp add: tensor_mask_def nrows_def mask_select_insert)

text \<open>
  C2: a point \<open>p\<close> that the grid resolves to the sentinel \<open>-1\<close> has no influence on the
  forward pass of the PointEncoder. Removing it from the points (and, when features are
  given, its row \<open>f\<close> from the features) leaves the result unchanged, every row of the code
  tensor and also an error: the mask drops the point before anything is pooled.
\<close>

theorem PointEncoder_forward_masked_point:
  assumes "py_index (grids svh) depth = Inr (Some grid)"
    and "point_voxel grid p = - 1"
    and "length fs1 = length ps1"
  shows "PointEncoder_forward enc \<lparr>ncols = n, rows = ps1 @ p # ps2\<rparr> None svh depth =
           PointEncoder_forward enc \<lparr>ncols = n, rows = ps1 @ ps2\<rparr> None svh depth
       \<and> PointEncoder_forward enc \<lparr>ncols = n, rows = ps1 @ p # ps2\<rparr>
             (Some \<lparr>ncols = m, rows = fs1 @ f # fs2\<rparr>) svh depth =
           PointEncoder_forward enc \<lparr>ncols = n, rows = ps1 @ ps2\<rparr>
             (Some \<lparr>ncols = m, rows = fs1 @ fs2\<rparr>) svh depth"
  using assms
  by (simp add: PointEncoder_forward_def Let_def point_voxel_def mask_select_insert
      tensor_mask_insert)

theorem PointEncoder_forward_masked_point_witness:
  "py_index (grids one_grid_svh) 0 = Inr (Some two_voxel_grid)
   \<and> point_voxel two_voxel_grid [5, 5, 5] = - 1
   \<and> PointEncoder_forward (PointEncoder_init 3 1 1 2 quarter_encoder_seed) cloud3 None
       one_grid_svh 0 = Inr \<lparr>ncols = 1, rows = [[395/1024], [0]]\<rparr>
   \<and> PointEncoder_forward (PointEncoder_init 4 1 1 2 quarter_encoder_seed) cloud3
       (Some cloud3_feat) one_grid_svh 0 = Inr \<lparr>ncols = 1, rows = [[421/1024], [0]]\<rparr>"
proof -
  have g: "py_index (grids one_grid_svh) 0 = Inr (Some two_voxel_grid)"
    by (simp add: one_grid_svh_def py_index_def py_resolve_def)
  have p: "point_voxel two_voxel_grid [5, 5, 5] = - 1"
    by (simp add: point_voxel_def two_voxel_grid_def round_half_even_def)
  have l: "length [[1::real]] = length [[1/8, 0, 0::real]]"
    by simp
  note masked = PointEncoder_forward_masked_point [OF g p l, of _ 3 "[[0, 1/8, - 1/8]]" 1
      "[100]" "[[2]]"]
  show ?thesis
    using masked [of "PointEncoder_init 3 1 1 2 quarter_encoder_seed"]
      masked [of "PointEncoder_init 4 1 1 2 quarter_encoder_seed"]
      encode_cloud2 encode_cloud2_feat g p
    by (simp add: cloud3_def cloud2_def cloud3_feat_def cloud2_feat_def)
qed

subsection \<open>The rows of the code tensor\<close>

lemma index_ok_nrows: "nrows a = nrows b \<Longrightarrow> index_ok a index n = index_ok b index n"
  by (simp add: index_ok_def)

lemma scatter_max_ok:
  "index_ok src index n \<Longrightarrow>
   \<exists>t. scatter_max src index n = Inr t \<and> ncols t = ncols src \<and> nrows t = n"
  by (simp add: scatter_max_def nrows_def)

lemma index_rows_ok:
  assumes "list_all (\<lambda>i. 0 \<le> i \<and> i < int (nrows t)) idx"
  shows "\<exists>u. index_rows t idx = Inr u \<and> ncols u = ncols t \<and> nrows u = length idx"
proof -
  have "list_all (\<lambda>i. py_resolve (nrows t) i \<noteq> None) idx"
    using assms by (auto simp: list_all_iff py_resolve_def)
  then show ?thesis
    by (simp add: index_rows_def nrows_def)
qed

lemma cat1_pair_ok:
  "nrows a = nrows b \<Longrightarrow>
   \<exists>t. cat1 [a, b] = Inr t \<and> ncols t = ncols a + ncols b \<and> nrows t = nrows a"
  by (simp add: cat1_def nrows_def)

lemma pool_blocks_shaped_returns:
  assumes "list_all (\<lambda>b. ResnetBlockFC_shaped b (2 * h) h) bs"
    and "ncols f = h" and "index_ok f vid nv"
  shows "\<exists>f'. pool_blocks bs vid nv f = Inr f' \<and> ncols f' = h \<and> nrows f' = nrows f"
  using assms
proof (induction bs arbitrary: f)
  case Nil
  then show ?case by simp
next
  case (Cons b bs)
  from Cons.prems(1) have b: "ResnetBlockFC_shaped b (2 * h) h"
    and bs: "list_all (\<lambda>b. ResnetBlockFC_shaped b (2 * h) h) bs"
    by simp_all
  from scatter_max_ok [OF Cons.prems(3)] obtain pooled where
    pooled: "scatter_max f vid nv = Inr pooled" "ncols pooled = h" "nrows pooled = nv"
    using Cons.prems(2) by auto
  have "list_all (\<lambda>i. 0 \<le> i \<and> i < int (nrows pooled)) vid"
    using Cons.prems(3) pooled(3) by (simp add: index_ok_def)
  from index_rows_ok [OF this] obtain pv where
    pv: "index_rows pooled vid = Inr pv" "ncols pv = h" "nrows pv = nrows f"
    using pooled(2) Cons.prems(3) by (auto simp: index_ok_def)
  from cat1_pair_ok [of f pv] obtain t where
    t: "cat1 [f, pv] = Inr t" "ncols t = 2 * h" "nrows t = nrows f"
    using pv(2,3) Cons.prems(2) by auto
  from ResnetBlockFC_shaped_returns [OF b t(2)] obtain y where
    y: "ResnetBlockFC_forward b t = Inr y" "ncols y = h" "nrows y = nrows f"
    using t(3) by auto
  have "index_ok y vid nv"
    using Cons.prems(3) index_ok_nrows [of y f] y(3) by simp
  from Cons.IH [OF bs y(2) this] obtain f' where
    "pool_blocks bs vid nv y = Inr f'" "ncols f' = h" "nrows f' = nrows y"
    by auto
  then show ?case
    using pooled(1) pv(1) t(1) y by simp
qed

lemma mask_select_map: "mask_select xs (map P xs) = filter P xs"
  by (induction xs) (simp_all add: mask_select_def)

lemma length_mask_select:
  "length xs = length ms \<Longrightarrow> length (mask_select xs ms) = length (filter (\<lambda>b. b) ms)"
  by (induction xs ms rule: list_induct2) (simp_all add: mask_select_def)

lemma tensor_mask_ok:
  "nrows t = length ms \<Longrightarrow>
   \<exists>u. tensor_mask t ms = Inr u \<and> ncols u = ncols t
      \<and> nrows u = length (filter (\<lambda>b. b) ms)"
  by (simp add: tensor_mask_def nrows_def length_mask_select)

lemma group_rows_empty: "j \<notin> set index \<Longrightarrow> group_rows rs index j = []"
  by (auto simp: group_rows_def filter_empty_conv dest: set_zip_rightD)

lemma group_rows_subset: "set (group_rows rs index j) \<subseteq> set rs"
  by (auto simp: group_rows_def dest: set_zip_leftD)

lemma length_foldl_add:
  "length z = n \<Longrightarrow> \<forall>r\<in>set g. length r = n \<Longrightarrow> length (foldl (map2 (+)) z g) = n"
  by (induction g arbitrary: z) simp_all

lemma scatter_max_empty:
  "scatter_max src index n = Inr t \<Longrightarrow> j < n \<Longrightarrow> int j \<notin> set index \<Longrightarrow>
   rows t ! j = replicate (ncols src) 0"
  by (auto simp: scatter_max_def group_rows_empty split: if_splits)

lemma sequence_err_Inr: "sequence_err (map (\<lambda>x. Inr (f x)) xs) = Inr (map f xs)"
  by (induction xs) simp_all

lemma sequence_mean_entry:
  "0 < n \<Longrightarrow>
   sequence_err (map (\<lambda>s. mean_entry s n) xs) = Inr (map (\<lambda>s. s / real n) xs)"
  by (induction xs) (simp_all add: mean_entry_def)

lemma scatter_mean_rows:
  "index_ok src index n \<Longrightarrow>
   scatter_mean src index n =
     Inr \<lparr>ncols = ncols src,
          rows = map (\<lambda>j. map (\<lambda>s. s / real (max 1 (length (group_rows (rows src) index (int j)))))
                            (foldl (map2 (+)) (replicate (ncols src) 0)
                               (group_rows (rows src) index (int j)))) [0..<n]\<rparr>"
  by (simp add: scatter_mean_def Let_def sequence_mean_entry sequence_err_Inr)

lemma scatter_mean_ok:
  assumes "index_ok src index n" and "\<forall>r\<in>set (rows src). length r = ncols src"
  shows "\<exists>t. scatter_mean src index n = Inr t \<and> ncols t = ncols src \<and> nrows t = n
           \<and> (\<forall>r\<in>set (rows t). length r = ncols src)
           \<and> (\<forall>j<n. int j \<notin> set index \<longrightarrow> rows t ! j = replicate (ncols src) 0)"
proof -
  have len: "length (foldl (map2 (+)) (replicate (ncols src) 0) (group_rows (rows src) index j))
      = ncols src" for j
    using assms(2) group_rows_subset [of "rows src" index j]
    by (intro length_foldl_add) auto
  show ?thesis
    using len
    by (auto simp: scatter_mean_rows [OF assms(1)] nrows_def group_rows_empty
        map_replicate_const)
qed

text \<open>
  C8: for every encoder whose parameters have the declared shapes (a constructed one with at
  least one block is such an encoder, and so is a trained one), a grid at the requested
  depth that resolves every point to \<open>-1\<close> or to a voxel index below \<open>num_voxels\<close>, and
  points and features of the declared widths, the forward pass returns a code tensor: it has
  \<open>num_voxels\<close> rows, each a vector of \<open>c_dim\<close> numbers, and the row of a voxel no point is
  routed to is zero. Returning means that no quotient of the mean was undefined: the count
  of an empty group is clamped to 1 before the division. The max-pool too gives a zero row
  for a voxel without points.
\<close>

theorem PointEncoder_forward_returns:
  assumes shaped: "PointEncoder_shaped enc dim_in"
    and grid: "py_index (grids svh) depth = Inr (Some grid)"
    and contract: "\<forall>p\<in>set (rows pts_xyz). point_voxel grid p = - 1
        \<or> (0 \<le> point_voxel grid p \<and> point_voxel grid p < int (num_voxels grid))"
    and shape: "case pts_feature of
                  None \<Rightarrow> ncols pts_xyz = dim_in
                | Some pf \<Rightarrow> nrows pf = nrows pts_xyz \<and> ncols pts_xyz + ncols pf = dim_in"
  shows "(\<exists>c. PointEncoder_forward enc pts_xyz pts_feature svh depth = Inr c
           \<and> nrows c = num_voxels grid \<and> ncols c = pe_c_dim enc
           \<and> (\<forall>r\<in>set (rows c). length r = pe_c_dim enc)
           \<and> (\<forall>j<num_voxels grid. (\<forall>p\<in>set (rows pts_xyz). point_voxel grid p \<noteq> int j) \<longrightarrow>
                  rows c ! j = replicate (pe_c_dim enc) 0))
       \<and> (\<forall>src index pooled j. scatter_max src index (num_voxels grid) = Inr pooled \<longrightarrow>
              j < num_voxels grid \<longrightarrow> int j \<notin> set index \<longrightarrow>
              rows pooled ! j = replicate (ncols src) 0)
       \<and> (0 < n_blocks \<longrightarrow>
            PointEncoder_shaped (PointEncoder_init dim_in c_dim hidden_dim n_blocks sd) dim_in)"
proof -
  define h where "h = pe_hidden_dim enc"
  from shaped have fc_pos: "Linear_shaped (pe_fc_pos enc) dim_in (2 * h)"
    and nonempty: "pe_blocks enc \<noteq> []"
    and blocks: "list_all (\<lambda>b. ResnetBlockFC_shaped b (2 * h) h) (pe_blocks enc)"
    and fc_c: "Linear_shaped (pe_fc_c enc) h (pe_c_dim enc)"
    by (simp_all add: PointEncoder_shaped_def h_def)
  define pts_g where "pts_g = pts_xyz\<lparr>rows := map (world_to_grid grid) (rows pts_xyz)\<rparr>"
  define vid_all where
    "vid_all = map (\<lambda>r. ijk_to_index grid (map round_half_even r)) (rows pts_g)"
  define pts_l where
    "pts_l = pts_g\<lparr>rows := map (map (\<lambda>c. py_mod (c + 1/2) 1)) (rows pts_g)\<rparr>"
  define pts_mask where "pts_mask = map (\<lambda>v. v \<noteq> - 1) vid_all"
  define vid where "vid = mask_select vid_all pts_mask"
  define nv where "nv = num_voxels grid"
  define N where "N = length (filter (\<lambda>b. b) pts_mask)"
  have vid_all: "vid_all = map (point_voxel grid) (rows pts_xyz)"
    by (simp add: vid_all_def pts_g_def point_voxel_def)
  have vid: "vid = filter (\<lambda>v. v \<noteq> - 1) vid_all"
    by (simp add: vid_def pts_mask_def mask_select_map)
  have len_mask: "length pts_mask = nrows pts_xyz"
    by (simp add: pts_mask_def vid_all nrows_def)
  have len_vid: "length vid = N"
    by (simp add: vid_def N_def length_mask_select pts_mask_def)
  have vid_range: "list_all (\<lambda>i. 0 \<le> i \<and> i < int nv) vid"
    using contract by (auto simp: vid vid_all list_all_iff nv_def)
  have ok: "index_ok t vid nv" if "nrows t = N" for t
    using that len_vid vid_range by (simp add: index_ok_def)
  obtain pts_m where pts_m: "tensor_mask pts_l pts_mask = Inr pts_m"
    "ncols pts_m = ncols pts_xyz" "nrows pts_m = N"
    using tensor_mask_ok [of pts_l pts_mask] len_mask
    by (auto simp: pts_l_def pts_g_def nrows_def N_def)
  obtain f0 where f0:
    "(case pts_feature of
        None \<Rightarrow> Linear_forward (pe_fc_pos enc) pts_m
      | Some pf \<Rightarrow>
          bind_err (tensor_mask pf pts_mask) (\<lambda>pf_m.
          bind_err (cat1 [pts_m, pf_m]) (Linear_forward (pe_fc_pos enc)))) = Inr f0"
    "ncols f0 = 2 * h" "nrows f0 = N"
  proof (cases pts_feature)
    case None
    with shape pts_m(2) have "ncols pts_m = dim_in" by simp
    from Linear_shaped_forward [OF fc_pos this] show ?thesis
      using that None pts_m(3) by auto
  next
    case (Some pf)
    with shape have pf: "nrows pf = nrows pts_xyz" "ncols pts_xyz + ncols pf = dim_in"
      by simp_all
    from tensor_mask_ok [of pf pts_mask] obtain pf_m where
      pf_m: "tensor_mask pf pts_mask = Inr pf_m" "ncols pf_m = ncols pf" "nrows pf_m = N"
      using pf(1) len_mask by (auto simp: N_def)
    from cat1_pair_ok [of pts_m pf_m] obtain t where
      t: "cat1 [pts_m, pf_m] = Inr t" "ncols t = dim_in" "nrows t = N"
      using pts_m(2,3) pf_m(2,3) pf(2) by auto
    from Linear_shaped_forward [OF fc_pos t(2)] show ?thesis
      using that Some pf_m(1) t(1,3) by auto
  qed
  obtain block0 rest where bl: "pe_blocks enc = block0 # rest"
    using nonempty by (cases "pe_blocks enc") auto
  have block0: "py_index (pe_blocks enc) 0 = Inr block0" and rest: "drop 1 (pe_blocks enc) = rest"
    by (simp_all add: bl py_index_def py_resolve_def)
  from blocks bl have b0: "ResnetBlockFC_shaped block0 (2 * h) h"
    and br: "list_all (\<lambda>b. ResnetBlockFC_shaped b (2 * h) h) rest"
    by simp_all
  from ResnetBlockFC_shaped_returns [OF b0 f0(2)]
  obtain f1 where f1: "ResnetBlockFC_forward block0 f0 = Inr f1"
    "ncols f1 = h" "nrows f1 = N"
    using f0(3) by auto
  from pool_blocks_shaped_returns [OF br f1(2) ok [OF f1(3)]]
  obtain f2 where f2: "pool_blocks rest vid nv f1 = Inr f2"
    "ncols f2 = h" "nrows f2 = N"
    using f1(3) by auto
  from Linear_shaped_forward [OF fc_c f2(2)]
  obtain c where c: "Linear_forward (pe_fc_c enc) f2 = Inr c"
    "ncols c = pe_c_dim enc" "nrows c = N" "\<forall>r\<in>set (rows c). length r = ncols c"
    using f2(3) by auto
  from scatter_mean_ok [OF ok [OF c(3)] c(4)]
  obtain out where out: "scatter_mean c vid nv = Inr out" "ncols out = pe_c_dim enc"
    "nrows out = nv" "\<forall>r\<in>set (rows out). length r = pe_c_dim enc"
    "\<forall>j<nv. int j \<notin> set vid \<longrightarrow> rows out ! j = replicate (pe_c_dim enc) 0"
    using c(2) by auto
  have "PointEncoder_forward enc pts_xyz pts_feature svh depth = Inr out"
    using grid pts_m(1) f0(1) block0 f1(1) f2(1) c(1) out(1) rest
    unfolding PointEncoder_forward_def Let_def vid_def pts_mask_def pts_l_def vid_all_def
      pts_g_def nv_def
    by simp
  moreover have "int j \<notin> set vid" if "\<forall>p\<in>set (rows pts_xyz). point_voxel grid p \<noteq> int j" for j
    using that by (auto simp: vid vid_all)
  ultimately have "\<exists>c. PointEncoder_forward enc pts_xyz pts_feature svh depth = Inr c
           \<and> nrows c = num_voxels grid \<and> ncols c = pe_c_dim enc
           \<and> (\<forall>r\<in>set (rows c). length r = pe_c_dim enc)
           \<and> (\<forall>j<num_voxels grid. (\<forall>p\<in>set (rows pts_xyz). point_voxel grid p \<noteq> int j) \<longrightarrow>
                  rows c ! j = replicate (pe_c_dim enc) 0)"
    using out(2-5) by (auto simp: nv_def)
  then show ?thesis
    using scatter_max_empty PointEncoder_init_shaped by blast
qed

theorem PointEncoder_forward_returns_witness:
  "PointEncoder_shaped trained_encoder 3
   \<and> py_index (grids one_grid_svh) 0 = Inr (Some two_voxel_grid)
   \<and> map (point_voxel two_voxel_grid) (rows cloud3) = [0, - 1, 0]
   \<and> num_voxels two_voxel_grid = 2
   \<and> ncols cloud3 = 3
   \<and> PointEncoder_forward trained_encoder cloud3 None one_grid_svh 0 =
       Inr \<lparr>ncols = 1, rows = [[7251/16384], [0]]\<rparr>"
proof -
  have sh: "PointEncoder_shaped trained_encoder 3"
    by (simp add: PointEncoder_shaped_def ResnetBlockFC_shaped_def Linear_shaped_def
        trained_encoder_def trained_block_def PointEncoder_init_def ResnetBlockFC_init_def
        Linear_init_def zeros_weight_def Let_def list_all_iff)
  have g: "py_index (grids one_grid_svh) 0 = Inr (Some two_voxel_grid)"
    by (simp add: one_grid_svh_def py_index_def py_resolve_def)
  have nv: "num_voxels two_voxel_grid = 2"
    by (simp add: two_voxel_grid_def)
  have contract: "\<forall>p\<in>set (rows cloud3). point_voxel two_voxel_grid p = - 1
      \<or> (0 \<le> point_voxel two_voxel_grid p
          \<and> point_voxel two_voxel_grid p < int (num_voxels two_voxel_grid))"
    using point_voxel_cloud3 by (simp add: cloud3_def nv)
  have shape: "case None of None \<Rightarrow> ncols cloud3 = 3
      | Some pf \<Rightarrow> nrows pf = nrows cloud3 \<and> ncols cloud3 + ncols pf = 3"
    by (simp add: cloud3_def)
  note returns = PointEncoder_forward_returns [OF sh g contract shape,
      of 2 1 1 quarter_encoder_seed]
  from returns have "\<exists>c. PointEncoder_forward trained_encoder cloud3 None one_grid_svh 0 = Inr c"
    by blast
  then show ?thesis
    using sh g nv point_voxel_cloud3 encode_trained by (simp add: cloud3_def)
qed

end
